theory Spec2Isabelle
  imports Complex_Main "HOL-Library.Word"
begin

unbundle bit_operations_syntax

section \<open>Power tiers (adaptive\_scheduler.h, adaptive\_scheduler.c)\<close>

text \<open>
  \<^verbatim>\<open>typedef enum { POWER_TIER_NORMAL = 0, POWER_TIER_CONSERVE = 1,
                 POWER_TIER_RESERVE = 2, POWER_TIER_SURVIVAL = 3 } power_tier_t;\<close>
  The C code compares tiers as integers; \<open>tier_ord\<close> is the enumerator's value.
\<close>

datatype power_tier_t =
    POWER_TIER_NORMAL
  | POWER_TIER_CONSERVE
  | POWER_TIER_RESERVE
  | POWER_TIER_SURVIVAL

fun tier_ord :: "power_tier_t \<Rightarrow> nat" where
  "tier_ord POWER_TIER_NORMAL = 0"
| "tier_ord POWER_TIER_CONSERVE = 1"
| "tier_ord POWER_TIER_RESERVE = 2"
| "tier_ord POWER_TIER_SURVIVAL = 3"

text \<open>Battery thresholds in millivolts; \<open>battery_mv\<close> is a \<^verbatim>\<open>uint16_t\<close>.\<close>

definition BATTERY_THRESHOLD_NORMAL_HIGH :: "16 word" where
  "BATTERY_THRESHOLD_NORMAL_HIGH = 3800"

definition BATTERY_THRESHOLD_NORMAL_LOW :: "16 word" where
  "BATTERY_THRESHOLD_NORMAL_LOW = 3600"

definition BATTERY_THRESHOLD_CONSERVE_HIGH :: "16 word" where
  "BATTERY_THRESHOLD_CONSERVE_HIGH = 3600"

definition BATTERY_THRESHOLD_CONSERVE_LOW :: "16 word" where
  "BATTERY_THRESHOLD_CONSERVE_LOW = 3400"

definition BATTERY_THRESHOLD_RESERVE_HIGH :: "16 word" where
  "BATTERY_THRESHOLD_RESERVE_HIGH = 3400"

definition BATTERY_THRESHOLD_RESERVE_LOW :: "16 word" where
  "BATTERY_THRESHOLD_RESERVE_LOW = 3200"

text \<open>
  Lines 45--53 of \<^verbatim>\<open>adaptive_scheduler_get_tier\<close>: the tier read off the absolute
  ladder, before hysteresis.
\<close>

definition ladder_tier :: "16 word \<Rightarrow> power_tier_t" where
  "ladder_tier battery_mv =
     (if BATTERY_THRESHOLD_NORMAL_HIGH \<le> battery_mv then POWER_TIER_NORMAL
      else if BATTERY_THRESHOLD_CONSERVE_HIGH \<le> battery_mv then POWER_TIER_CONSERVE
      else if BATTERY_THRESHOLD_RESERVE_HIGH \<le> battery_mv then POWER_TIER_RESERVE
      else POWER_TIER_SURVIVAL)"

text \<open>
  Lines 56--81: the hysteresis step, giving the local \<^verbatim>\<open>new_tier\<close> from the
  ladder tier and the file-scope variable \<^verbatim>\<open>current_tier\<close>.
\<close>

definition hysteresis_tier :: "16 word \<Rightarrow> power_tier_t \<Rightarrow> power_tier_t \<Rightarrow> power_tier_t" where
  "hysteresis_tier battery_mv new_tier current_tier =
     (if new_tier = current_tier then new_tier
      else if tier_ord current_tier < tier_ord new_tier then
        (if battery_mv \<le> BATTERY_THRESHOLD_NORMAL_LOW \<and> current_tier = POWER_TIER_NORMAL
           then POWER_TIER_CONSERVE
         else if battery_mv \<le> BATTERY_THRESHOLD_CONSERVE_LOW \<and> current_tier = POWER_TIER_CONSERVE
           then POWER_TIER_RESERVE
         else if battery_mv \<le> BATTERY_THRESHOLD_RESERVE_LOW \<and> current_tier = POWER_TIER_RESERVE
           then POWER_TIER_SURVIVAL
         else current_tier)
      else
        (if BATTERY_THRESHOLD_NORMAL_HIGH \<le> battery_mv \<and> current_tier = POWER_TIER_CONSERVE
           then POWER_TIER_NORMAL
         else if BATTERY_THRESHOLD_CONSERVE_HIGH \<le> battery_mv \<and> current_tier = POWER_TIER_RESERVE
           then POWER_TIER_CONSERVE
         else if BATTERY_THRESHOLD_RESERVE_HIGH \<le> battery_mv \<and> current_tier = POWER_TIER_SURVIVAL
           then POWER_TIER_RESERVE
         else current_tier))"

text \<open>
  \<^verbatim>\<open>power_tier_t adaptive_scheduler_get_tier(uint16_t battery_mv)\<close>.
  The function has one parameter; the tier it compares against is the file-scope
  variable \<^verbatim>\<open>static power_tier_t current_tier\<close> (line 10), which lines 83--86
  overwrite. The model passes that variable in and returns the pair
  (returned value, value of the variable after the call). The log line of line 84 is
  not modelled.
\<close>

definition adaptive_scheduler_get_tier :: "16 word \<Rightarrow> power_tier_t \<Rightarrow> power_tier_t \<times> power_tier_t" where
  "adaptive_scheduler_get_tier battery_mv current_tier =
     (let new_tier = hysteresis_tier battery_mv (ladder_tier battery_mv) current_tier;
          current_tier' = (if new_tier = current_tier then current_tier else new_tier)
      in (current_tier', current_tier'))"

text \<open>
  The main loop (main.c, lines 78--79) calls the function once per wake cycle.
  \<open>tier_run\<close> feeds a list of readings through successive calls, threading the
  file-scope variable, and collects the returned tiers.
\<close>

fun tier_run :: "power_tier_t \<Rightarrow> 16 word list \<Rightarrow> power_tier_t list" where
  "tier_run current_tier [] = []"
| "tier_run current_tier (mv # mvs) =
     (let (r, current_tier') = adaptive_scheduler_get_tier mv current_tier
      in r # tier_run current_tier' mvs)"

section \<open>The I2C bus\<close>

text \<open>
  The drivers reach their devices through the platform's \<^verbatim>\<open>i2c_write\<close> and
  \<^verbatim>\<open>i2c_write_read\<close>, which are not part of the repository. They are a parameter
  of the model: an environment gives, for the \<open>k\<close>-th transaction on the bus, its
  return value (\<open>0\<close> is success) and, for a read, the byte the device delivers for
  each register address. A burst read of \<open>len\<close> bytes that starts at register
  \<open>reg\<close> delivers the bytes of registers \<open>reg\<close>, \<open>reg + 1\<close> and so on, in that
  order, into \<^verbatim>\<open>data[0]\<close>, \<^verbatim>\<open>data[1]\<close> and so on.

  The state of the bus is the list of transactions performed so far, oldest first.
\<close>

record i2c_env =
  i2c_ret :: "nat \<Rightarrow> int"
  i2c_rx :: "nat \<Rightarrow> 8 word \<Rightarrow> 8 word"

datatype i2c_msg =
    I2C_write "16 word" "8 word list"
  | I2C_write_read "16 word" "8 word" nat

type_synonym i2c_log = "i2c_msg list"

text \<open>\<^verbatim>\<open>i2c_write(i2c_dev, buf, num_bytes, addr)\<close>\<close>

definition i2c_write :: "i2c_env \<Rightarrow> 8 word list \<Rightarrow> 16 word \<Rightarrow> i2c_log \<Rightarrow> int \<times> i2c_log" where
  "i2c_write env buf addr bus = (i2c_ret env (length bus), bus @ [I2C_write addr buf])"

text \<open>
  \<^verbatim>\<open>i2c_write_read(i2c_dev, addr, &reg, 1, data, len)\<close>: every call in the
  repository writes the one register byte and then reads \<open>len\<close> bytes.
\<close>

definition i2c_write_read :: "i2c_env \<Rightarrow> 16 word \<Rightarrow> 8 word \<Rightarrow> nat \<Rightarrow> i2c_log \<Rightarrow> (int \<times> 8 word list) \<times> i2c_log" where
  "i2c_write_read env addr reg len bus =
     ((i2c_ret env (length bus), map (\<lambda>i. i2c_rx env (length bus) (reg + of_nat i)) [0..<len]),
      bus @ [I2C_write_read addr reg len])"

text \<open>The platform's \<^verbatim>\<open>errno.h\<close> value, not part of the repository.\<close>

definition EIO :: int where
  "EIO = 5"

section \<open>Real-time clock (rv3028.h, rv3028.c)\<close>

definition RV3028_I2C_ADDR :: "16 word" where
  "RV3028_I2C_ADDR = 0x52"

definition RV3028_REG_SECONDS :: "8 word" where
  "RV3028_REG_SECONDS = 0x00"

definition RV3028_REG_CONTROL2 :: "8 word" where
  "RV3028_REG_CONTROL2 = 0x10"

definition RV3028_CTRL2_AF :: "8 word" where
  "RV3028_CTRL2_AF = 0x40"

definition RV3028_CTRL2_AIE :: "8 word" where
  "RV3028_CTRL2_AIE = 0x08"

text \<open>
  \<^verbatim>\<open>struct rv3028_time\<close> and \<^verbatim>\<open>struct rv3028_alarm\<close>. Both structs have
  fields \<^verbatim>\<open>seconds\<close>, \<^verbatim>\<open>minutes\<close>, \<^verbatim>\<open>hours\<close>, \<^verbatim>\<open>weekday\<close>,
  \<^verbatim>\<open>date\<close>; the selectors are written with the record's name in front.
\<close>

record rv3028_time =
  seconds :: "8 word"
  minutes :: "8 word"
  hours :: "8 word"
  weekday :: "8 word"
  date :: "8 word"
  month :: "8 word"
  year :: "16 word"

record rv3028_alarm =
  seconds :: "8 word"
  minutes :: "8 word"
  hours :: "8 word"
  weekday :: "8 word"
  date :: "8 word"

text \<open>
  \<^verbatim>\<open>return ((bcd >> 4) * 10) + (bcd & 0x0F);\<close>
  \<^verbatim>\<open>return ((bin / 10) << 4) | (bin % 10);\<close>
  The \<^verbatim>\<open>uint8_t\<close> operand is promoted to \<^verbatim>\<open>int\<close> (32 bits), and the result is
  converted back to \<^verbatim>\<open>uint8_t\<close>.
\<close>

definition bcd_to_bin :: "8 word \<Rightarrow> 8 word" where
  "bcd_to_bin bcd =
     ucast (drop_bit 4 (ucast bcd :: 32 word) * 10 + ((ucast bcd :: 32 word) AND 0x0F))"

definition bin_to_bcd :: "8 word \<Rightarrow> 8 word" where
  "bin_to_bcd bin =
     ucast (push_bit 4 ((ucast bin :: 32 word) div 10) OR ((ucast bin :: 32 word) mod 10))"

definition rv3028_read_reg :: "i2c_env \<Rightarrow> 8 word \<Rightarrow> nat \<Rightarrow> i2c_log \<Rightarrow> (int \<times> 8 word list) \<times> i2c_log" where
  "rv3028_read_reg env reg len bus = i2c_write_read env RV3028_I2C_ADDR reg len bus"

definition rv3028_write_reg :: "i2c_env \<Rightarrow> 8 word \<Rightarrow> 8 word \<Rightarrow> i2c_log \<Rightarrow> int \<times> i2c_log" where
  "rv3028_write_reg env reg data bus = i2c_write env [reg, data] RV3028_I2C_ADDR bus"

text \<open>\<^verbatim>\<open>rv3028_read_reg8\<close>: a failed read is turned into the value 0.\<close>

definition rv3028_read_reg8 :: "i2c_env \<Rightarrow> 8 word \<Rightarrow> i2c_log \<Rightarrow> 8 word \<times> i2c_log" where
  "rv3028_read_reg8 env reg bus =
     (let ((ret, data), bus') = rv3028_read_reg env reg 1 bus
      in if ret \<noteq> 0 then (0, bus') else (data ! 0, bus'))"

text \<open>
  \<^verbatim>\<open>rv3028_get_time\<close>: the \<^verbatim>\<open>time\<close> structure is written only when the read
  succeeded; a failure returns the error code (\<open>Inl\<close>) and leaves it untouched.
\<close>

definition decode_time :: "8 word list \<Rightarrow> rv3028_time" where
  "decode_time data =
     \<lparr> rv3028_time.seconds = bcd_to_bin (data ! 0 AND 0x7F),
       rv3028_time.minutes = bcd_to_bin (data ! 1 AND 0x7F),
       rv3028_time.hours = bcd_to_bin (data ! 2 AND 0x3F),
       rv3028_time.weekday = data ! 3 AND 0x07,
       rv3028_time.date = bcd_to_bin (data ! 4 AND 0x3F),
       rv3028_time.month = bcd_to_bin (data ! 5 AND 0x1F),
       rv3028_time.year = 2000 + ucast (bcd_to_bin (data ! 6)) \<rparr>"

definition rv3028_get_time :: "i2c_env \<Rightarrow> i2c_log \<Rightarrow> (int + rv3028_time) \<times> i2c_log" where
  "rv3028_get_time env bus =
     (let ((ret, data), bus') = rv3028_read_reg env RV3028_REG_SECONDS 7 bus
      in if ret \<noteq> 0 then (Inl ret, bus') else (Inr (decode_time data), bus'))"

text \<open>
  The seven bytes \<^verbatim>\<open>rv3028_set_time\<close> builds (lines 106--112) and the five bytes
  \<^verbatim>\<open>rv3028_set_alarm\<close> builds (lines 142--146).
\<close>

definition encode_time :: "rv3028_time \<Rightarrow> 8 word list" where
  "encode_time time =
     [bin_to_bcd (rv3028_time.seconds time),
      bin_to_bcd (rv3028_time.minutes time),
      bin_to_bcd (rv3028_time.hours time),
      rv3028_time.weekday time,
      bin_to_bcd (rv3028_time.date time),
      bin_to_bcd (rv3028_time.month time),
      bin_to_bcd (ucast (rv3028_time.year time - 2000))]"

definition encode_alarm :: "rv3028_alarm \<Rightarrow> 8 word list" where
  "encode_alarm alarm =
     [bin_to_bcd (rv3028_alarm.seconds alarm),
      bin_to_bcd (rv3028_alarm.minutes alarm),
      bin_to_bcd (rv3028_alarm.hours alarm),
      rv3028_alarm.weekday alarm,
      bin_to_bcd (rv3028_alarm.date alarm)]"

text \<open>
  \<^verbatim>\<open>rv3028_set_alarm\<close>: the five bytes go out in one \<^verbatim>\<open>i2c_write\<close>, as the
  source has it (the buffer starts with the seconds byte).
\<close>

definition rv3028_set_alarm :: "i2c_env \<Rightarrow> rv3028_alarm \<Rightarrow> i2c_log \<Rightarrow> int \<times> i2c_log" where
  "rv3028_set_alarm env alarm bus = i2c_write env (encode_alarm alarm) RV3028_I2C_ADDR bus"

definition rv3028_clear_alarm :: "i2c_env \<Rightarrow> i2c_log \<Rightarrow> int \<times> i2c_log" where
  "rv3028_clear_alarm env bus =
     (let (ctrl2, bus') = rv3028_read_reg8 env RV3028_REG_CONTROL2 bus
      in rv3028_write_reg env RV3028_REG_CONTROL2 (ctrl2 AND NOT RV3028_CTRL2_AF) bus')"

definition rv3028_enable_alarm_interrupt :: "i2c_env \<Rightarrow> i2c_log \<Rightarrow> int \<times> i2c_log" where
  "rv3028_enable_alarm_interrupt env bus =
     (let (ctrl2, bus') = rv3028_read_reg8 env RV3028_REG_CONTROL2 bus
      in rv3028_write_reg env RV3028_REG_CONTROL2 (ctrl2 OR RV3028_CTRL2_AIE) bus')"

text \<open>
  Lines 195--205 of \<^verbatim>\<open>rv3028_set_wakeup_time\<close>. The three \<^verbatim>\<open>uint8_t\<close> fields
  are promoted, the sum with the \<^verbatim>\<open>uint32_t\<close> parameter is taken in
  \<^verbatim>\<open>uint32_t\<close> (wrapping at \<open>2 ^ 32\<close>), and each alarm field is converted to
  \<^verbatim>\<open>uint8_t\<close>.
\<close>

definition target_seconds :: "rv3028_time \<Rightarrow> 32 word \<Rightarrow> 32 word" where
  "target_seconds current_time seconds_from_now =
     ucast (rv3028_time.hours current_time) * 3600 +
     ucast (rv3028_time.minutes current_time) * 60 +
     ucast (rv3028_time.seconds current_time) +
     seconds_from_now"

definition wakeup_alarm :: "rv3028_time \<Rightarrow> 32 word \<Rightarrow> rv3028_alarm" where
  "wakeup_alarm current_time seconds_from_now =
     (let target = target_seconds current_time seconds_from_now
      in \<lparr> rv3028_alarm.seconds = ucast (target mod 60),
           rv3028_alarm.minutes = ucast ((target div 60) mod 60),
           rv3028_alarm.hours = ucast ((target div 3600) mod 24),
           rv3028_alarm.weekday = rv3028_time.weekday current_time,
           rv3028_alarm.date = rv3028_time.date current_time \<rparr>)"

definition rv3028_set_wakeup_time :: "i2c_env \<Rightarrow> 32 word \<Rightarrow> i2c_log \<Rightarrow> int \<times> i2c_log" where
  "rv3028_set_wakeup_time env seconds_from_now bus =
     (case rv3028_get_time env bus of
        (Inl ret, bus1) \<Rightarrow> (ret, bus1)
      | (Inr current_time, bus1) \<Rightarrow>
          (let (ret, bus2) = rv3028_set_alarm env (wakeup_alarm current_time seconds_from_now) bus1
           in if ret \<noteq> 0 then (ret, bus2) else rv3028_enable_alarm_interrupt env bus2))"

text \<open>
  \<^verbatim>\<open>adaptive_scheduler_set_next_wake\<close> (adaptive\_scheduler.c, lines 107--123).
  The value \<^verbatim>\<open>rv3028_clear_alarm()\<close> returns is discarded (line 112).
\<close>

definition adaptive_scheduler_set_next_wake :: "i2c_env \<Rightarrow> 32 word \<Rightarrow> i2c_log \<Rightarrow> int \<times> i2c_log" where
  "adaptive_scheduler_set_next_wake env interval_ms bus =
     (let (_, bus1) = rv3028_clear_alarm env bus;
          (ret, bus2) = rv3028_set_wakeup_time env (interval_ms div 1000) bus1
      in if ret \<noteq> 0 then (ret, bus2) else (0, bus2))"

text \<open>
  What \<^verbatim>\<open>rv3028_read_reg8\<close> returns when its read is the \<open>k\<close>-th transaction on
  the bus (0 when that transaction fails), and the time \<^verbatim>\<open>rv3028_get_time\<close> decodes
  when its read is the \<open>k\<close>-th transaction and succeeds.
\<close>

definition rv3028_reg8_at :: "i2c_env \<Rightarrow> nat \<Rightarrow> 8 word \<Rightarrow> 8 word" where
  "rv3028_reg8_at env k reg = (if i2c_ret env k \<noteq> 0 then 0 else i2c_rx env k reg)"

definition time_read :: "i2c_env \<Rightarrow> nat \<Rightarrow> rv3028_time" where
  "time_read env k =
     decode_time (map (\<lambda>i. i2c_rx env k (RV3028_REG_SECONDS + of_nat i)) [0..<7])"

text \<open>
  The alarm in the words of the specification, over the natural numbers (no
  wrap-around): for a time \<open>t\<close> and an interval of \<open>s\<close> seconds,
  \<open>targetSeconds = hours * 3600 + minutes * 60 + seconds + s\<close>, the alarm has hours
  \<open>(targetSeconds / 3600) mod 24\<close>, minutes \<open>(targetSeconds / 60) mod 60\<close>, seconds
  \<open>targetSeconds mod 60\<close>, and the weekday and date of \<open>t\<close>.
\<close>

definition spec_target_seconds :: "rv3028_time \<Rightarrow> nat \<Rightarrow> nat" where
  "spec_target_seconds t s =
     unat (rv3028_time.hours t) * 3600 + unat (rv3028_time.minutes t) * 60 +
     unat (rv3028_time.seconds t) + s"

definition spec_alarm :: "rv3028_time \<Rightarrow> nat \<Rightarrow> rv3028_alarm" where
  "spec_alarm t s =
     \<lparr> rv3028_alarm.seconds = of_nat (spec_target_seconds t s mod 60),
       rv3028_alarm.minutes = of_nat ((spec_target_seconds t s div 60) mod 60),
       rv3028_alarm.hours = of_nat ((spec_target_seconds t s div 3600) mod 24),
       rv3028_alarm.weekday = rv3028_time.weekday t,
       rv3028_alarm.date = rv3028_time.date t \<rparr>"

section \<open>Environmental sensor (bme280.h, bme280.c)\<close>

definition BME280_I2C_ADDR :: "16 word" where
  "BME280_I2C_ADDR = 0x76"

definition BME280_REG_PRESS_MSB :: "8 word" where
  "BME280_REG_PRESS_MSB = 0xF7"

definition BME280_REG_CTRL_MEAS :: "8 word" where
  "BME280_REG_CTRL_MEAS = 0xF4"

definition BME280_REG_DIG_T1 :: "8 word" where "BME280_REG_DIG_T1 = 0x88"
definition BME280_REG_DIG_T2 :: "8 word" where "BME280_REG_DIG_T2 = 0x8A"
definition BME280_REG_DIG_T3 :: "8 word" where "BME280_REG_DIG_T3 = 0x8C"
definition BME280_REG_DIG_P1 :: "8 word" where "BME280_REG_DIG_P1 = 0x8E"
definition BME280_REG_DIG_P2 :: "8 word" where "BME280_REG_DIG_P2 = 0x90"
definition BME280_REG_DIG_P3 :: "8 word" where "BME280_REG_DIG_P3 = 0x92"
definition BME280_REG_DIG_P4 :: "8 word" where "BME280_REG_DIG_P4 = 0x94"
definition BME280_REG_DIG_P5 :: "8 word" where "BME280_REG_DIG_P5 = 0x96"
definition BME280_REG_DIG_P6 :: "8 word" where "BME280_REG_DIG_P6 = 0x98"
definition BME280_REG_DIG_P7 :: "8 word" where "BME280_REG_DIG_P7 = 0x9A"
definition BME280_REG_DIG_P8 :: "8 word" where "BME280_REG_DIG_P8 = 0x9C"
definition BME280_REG_DIG_P9 :: "8 word" where "BME280_REG_DIG_P9 = 0x9E"
definition BME280_REG_DIG_H1 :: "8 word" where "BME280_REG_DIG_H1 = 0xA1"
definition BME280_REG_DIG_H2 :: "8 word" where "BME280_REG_DIG_H2 = 0xE1"
definition BME280_REG_DIG_H3 :: "8 word" where "BME280_REG_DIG_H3 = 0xE3"
definition BME280_REG_DIG_H4 :: "8 word" where "BME280_REG_DIG_H4 = 0xE4"
definition BME280_REG_DIG_H5 :: "8 word" where "BME280_REG_DIG_H5 = 0xE5"
definition BME280_REG_DIG_H6 :: "8 word" where "BME280_REG_DIG_H6 = 0xE7"

definition BME280_CTRL_MEAS_OSRS_T_1X :: "8 word" where
  "BME280_CTRL_MEAS_OSRS_T_1X = 0x20"

definition BME280_CTRL_MEAS_OSRS_P_1X :: "8 word" where
  "BME280_CTRL_MEAS_OSRS_P_1X = 0x04"

definition BME280_CTRL_MEAS_MODE_FORCED :: "8 word" where
  "BME280_CTRL_MEAS_MODE_FORCED = 0x01"

text \<open>
  \<^verbatim>\<open>struct bme280_calib_data\<close>. A field holds the bits of the C field;
  \<^verbatim>\<open>dig_T1\<close>, \<^verbatim>\<open>dig_P1\<close>, \<^verbatim>\<open>dig_H1\<close> and \<^verbatim>\<open>dig_H3\<close> are unsigned in C
  (read with \<open>ucast\<close>), the others are signed (read with \<open>scast\<close>).
\<close>

record bme280_calib_data =
  dig_T1 :: "16 word"
  dig_T2 :: "16 word"
  dig_T3 :: "16 word"
  dig_P1 :: "16 word"
  dig_P2 :: "16 word"
  dig_P3 :: "16 word"
  dig_P4 :: "16 word"
  dig_P5 :: "16 word"
  dig_P6 :: "16 word"
  dig_P7 :: "16 word"
  dig_P8 :: "16 word"
  dig_P9 :: "16 word"
  dig_H1 :: "8 word"
  dig_H2 :: "16 word"
  dig_H3 :: "8 word"
  dig_H4 :: "16 word"
  dig_H5 :: "16 word"
  dig_H6 :: "8 word"

text \<open>
  \<^verbatim>\<open>struct bme280_data\<close>. The C fields are \<^verbatim>\<open>float\<close>; each is assigned once, as
  \<^verbatim>\<open>(float)x / c\<close> for a 32-bit integer \<open>x\<close> and a constant \<open>c\<close> (100, 256 and
  1024). The record holds the integer \<open>x\<close> of each field.
\<close>

record bme280_data =
  temperature :: "32 word"
  pressure :: "32 word"
  humidity :: "32 word"

text \<open>
  \<^verbatim>\<open>data->humidity = (float)h / 1024.0f\<close>. For \<open>0 \<le> h < 2 ^ 24\<close> the conversion to
  \<^verbatim>\<open>float\<close> is exact, and so is the division by the power of two \<open>1024\<close>; the
  value of the field is then this quotient.
\<close>

definition humidity_value :: "bme280_data \<Rightarrow> real" where
  "humidity_value data = real_of_int (sint (humidity data)) / 1024"

definition bme280_read_reg :: "i2c_env \<Rightarrow> 8 word \<Rightarrow> nat \<Rightarrow> i2c_log \<Rightarrow> (int \<times> 8 word list) \<times> i2c_log" where
  "bme280_read_reg env reg len bus = i2c_write_read env BME280_I2C_ADDR reg len bus"

definition bme280_write_reg :: "i2c_env \<Rightarrow> 8 word \<Rightarrow> 8 word \<Rightarrow> i2c_log \<Rightarrow> int \<times> i2c_log" where
  "bme280_write_reg env reg data bus = i2c_write env [reg, data] BME280_I2C_ADDR bus"

definition bme280_read_reg8 :: "i2c_env \<Rightarrow> 8 word \<Rightarrow> i2c_log \<Rightarrow> 8 word \<times> i2c_log" where
  "bme280_read_reg8 env reg bus =
     (let ((ret, data), bus') = bme280_read_reg env reg 1 bus
      in if ret \<noteq> 0 then (0, bus') else (data ! 0, bus'))"

text \<open>\<^verbatim>\<open>return (data[0] << 8) | data[1];\<close> computed in \<^verbatim>\<open>int\<close>, returned as \<^verbatim>\<open>uint16_t\<close>.\<close>

definition bme280_read_reg16 :: "i2c_env \<Rightarrow> 8 word \<Rightarrow> i2c_log \<Rightarrow> 16 word \<times> i2c_log" where
  "bme280_read_reg16 env reg bus =
     (let ((ret, data), bus') = bme280_read_reg env reg 2 bus
      in if ret \<noteq> 0 then (0, bus')
         else (ucast (push_bit 8 (ucast (data ! 0) :: 32 word) OR ucast (data ! 1)), bus'))"

text \<open>\<^verbatim>\<open>return (int16_t)bme280_read_reg16(reg);\<close> keeps the sixteen bits.\<close>

definition bme280_read_reg16_signed :: "i2c_env \<Rightarrow> 8 word \<Rightarrow> i2c_log \<Rightarrow> 16 word \<times> i2c_log" where
  "bme280_read_reg16_signed env reg bus = bme280_read_reg16 env reg bus"

text \<open>
  What the two read helpers return when their read is the \<open>k\<close>-th transaction on
  the bus: 0 when that transaction fails, otherwise the byte of register \<open>reg\<close>,
  respectively the sixteen bits assembled from the bytes of registers \<open>reg\<close> and
  \<open>reg + 1\<close>.
\<close>

definition reg8_at :: "i2c_env \<Rightarrow> nat \<Rightarrow> 8 word \<Rightarrow> 8 word" where
  "reg8_at env k reg = (if i2c_ret env k \<noteq> 0 then 0 else i2c_rx env k reg)"

definition reg16_at :: "i2c_env \<Rightarrow> nat \<Rightarrow> 8 word \<Rightarrow> 16 word" where
  "reg16_at env k reg =
     (if i2c_ret env k \<noteq> 0 then 0
      else ucast (push_bit 8 (ucast (i2c_rx env k reg) :: 32 word) OR ucast (i2c_rx env k (reg + 1))))"

text \<open>
  \<^verbatim>\<open>bme280_read_calibration_data\<close> assigns every field of the file-scope
  \<^verbatim>\<open>calib_data\<close> and returns 0. The model returns the return value, the new
  \<^verbatim>\<open>calib_data\<close> and the bus.
\<close>

definition bme280_read_calibration_data :: "i2c_env \<Rightarrow> i2c_log \<Rightarrow> int \<times> bme280_calib_data \<times> i2c_log" where
  "bme280_read_calibration_data env bus0 =
     (let (T1, bus1) = bme280_read_reg16 env BME280_REG_DIG_T1 bus0;
          (T2, bus2) = bme280_read_reg16_signed env BME280_REG_DIG_T2 bus1;
          (T3, bus3) = bme280_read_reg16_signed env BME280_REG_DIG_T3 bus2;
          (P1, bus4) = bme280_read_reg16 env BME280_REG_DIG_P1 bus3;
          (P2, bus5) = bme280_read_reg16_signed env BME280_REG_DIG_P2 bus4;
          (P3, bus6) = bme280_read_reg16_signed env BME280_REG_DIG_P3 bus5;
          (P4, bus7) = bme280_read_reg16_signed env BME280_REG_DIG_P4 bus6;
          (P5, bus8) = bme280_read_reg16_signed env BME280_REG_DIG_P5 bus7;
          (P6, bus9) = bme280_read_reg16_signed env BME280_REG_DIG_P6 bus8;
          (P7, bus10) = bme280_read_reg16_signed env BME280_REG_DIG_P7 bus9;
          (P8, bus11) = bme280_read_reg16_signed env BME280_REG_DIG_P8 bus10;
          (P9, bus12) = bme280_read_reg16_signed env BME280_REG_DIG_P9 bus11;
          (H1, bus13) = bme280_read_reg8 env BME280_REG_DIG_H1 bus12;
          (H2, bus14) = bme280_read_reg16_signed env BME280_REG_DIG_H2 bus13;
          (H3, bus15) = bme280_read_reg8 env BME280_REG_DIG_H3 bus14;
          (h4_msb, bus16) = bme280_read_reg8 env BME280_REG_DIG_H4 bus15;
          (h4_lsb, bus17) = bme280_read_reg8 env (BME280_REG_DIG_H4 + 1) bus16;
          H4 = ucast (push_bit 4 (ucast h4_msb :: 32 word) OR (ucast h4_lsb AND 0x0F));
          (h5_msb, bus18) = bme280_read_reg8 env (BME280_REG_DIG_H5 + 1) bus17;
          (h5_lsb, bus19) = bme280_read_reg8 env BME280_REG_DIG_H5 bus18;
          H5 = ucast (push_bit 4 (ucast h5_msb :: 32 word) OR (drop_bit 4 (ucast h5_lsb) AND 0x0F));
          (H6, bus20) = bme280_read_reg8 env BME280_REG_DIG_H6 bus19
      in (0,
          \<lparr> dig_T1 = T1, dig_T2 = T2, dig_T3 = T3,
            dig_P1 = P1, dig_P2 = P2, dig_P3 = P3, dig_P4 = P4, dig_P5 = P5,
            dig_P6 = P6, dig_P7 = P7, dig_P8 = P8, dig_P9 = P9,
            dig_H1 = H1, dig_H2 = H2, dig_H3 = H3, dig_H4 = H4, dig_H5 = H5, dig_H6 = H6 \<rparr>,
          bus20))"

subsection \<open>Compensation arithmetic of \<^verbatim>\<open>bme280_read_forced\<close>\<close>

text \<open>
  All intermediates are \<^verbatim>\<open>int32_t\<close>, modelled as \<open>32 word\<close> in two's complement:
  \<open>+\<close>, \<open>-\<close>, \<open>*\<close> and \<open>push_bit\<close> (\<^verbatim>\<open><<\<close>) wrap, \<open>signed_drop_bit\<close> is
  \<^verbatim>\<open>>>\<close> on a signed operand, \<open>div\<close> is the unsigned division.

  Lines 156--158: the raw values from the eight data bytes.
\<close>

definition raw_adc_P :: "8 word list \<Rightarrow> 32 word" where
  "raw_adc_P raw_data =
     push_bit 12 (ucast (raw_data ! 0)) OR push_bit 4 (ucast (raw_data ! 1)) OR
     drop_bit 4 (ucast (raw_data ! 2))"

definition raw_adc_T :: "8 word list \<Rightarrow> 32 word" where
  "raw_adc_T raw_data =
     push_bit 12 (ucast (raw_data ! 3)) OR push_bit 4 (ucast (raw_data ! 4)) OR
     drop_bit 4 (ucast (raw_data ! 5))"

definition raw_adc_H :: "8 word list \<Rightarrow> 32 word" where
  "raw_adc_H raw_data = push_bit 8 (ucast (raw_data ! 6)) OR ucast (raw_data ! 7)"

text \<open>Lines 161--166: \<^verbatim>\<open>t_fine\<close>; line 167: the integer under the temperature field.\<close>

definition compensate_t_fine :: "bme280_calib_data \<Rightarrow> 32 word \<Rightarrow> 32 word" where
  "compensate_t_fine calib adc_T =
     (let var1 = signed_drop_bit 11
                   ((signed_drop_bit 3 adc_T - push_bit 1 (ucast (dig_T1 calib))) *
                    scast (dig_T2 calib));
          var2 = signed_drop_bit 14
                   (signed_drop_bit 12
                      ((signed_drop_bit 4 adc_T - ucast (dig_T1 calib)) *
                       (signed_drop_bit 4 adc_T - ucast (dig_T1 calib))) *
                    scast (dig_T3 calib))
      in var1 + var2)"

definition temperature_of_t_fine :: "32 word \<Rightarrow> 32 word" where
  "temperature_of_t_fine t_fine = signed_drop_bit 8 (t_fine * 5 + 128)"

text \<open>Lines 170--173: \<^verbatim>\<open>var2\<close> of the pressure compensation.\<close>

definition pressure_var2 :: "bme280_calib_data \<Rightarrow> 32 word \<Rightarrow> 32 word" where
  "pressure_var2 calib t_fine =
     (let var1 = signed_drop_bit 1 t_fine - 64000;
          var2 = signed_drop_bit 11 (signed_drop_bit 2 var1 * signed_drop_bit 2 var1) *
                 scast (dig_P6 calib);
          var2 = var2 + push_bit 1 (var1 * scast (dig_P5 calib));
          var2 = signed_drop_bit 2 var2 + push_bit 16 (scast (dig_P4 calib))
      in var2)"

text \<open>Lines 170 and 174--176: \<^verbatim>\<open>var1\<close> of the pressure compensation, the later divisor.\<close>

definition pressure_var1 :: "bme280_calib_data \<Rightarrow> 32 word \<Rightarrow> 32 word" where
  "pressure_var1 calib t_fine =
     (let var1 = signed_drop_bit 1 t_fine - 64000;
          var1 = signed_drop_bit 18
                   (signed_drop_bit 3
                      (scast (dig_P3 calib) *
                       signed_drop_bit 13 (signed_drop_bit 2 var1 * signed_drop_bit 2 var1)) +
                    signed_drop_bit 1 (scast (dig_P2 calib) * var1));
          var1 = signed_drop_bit 15 ((32768 + var1) * ucast (dig_P1 calib))
      in var1)"

text \<open>
  The C division. Dividing by zero is undefined behaviour; the model makes it the
  value \<open>None\<close>, which the functions below pass on.
\<close>

definition udiv32 :: "32 word \<Rightarrow> 32 word \<Rightarrow> 32 word option" where
  "udiv32 a b = (if b = 0 then None else Some (a div b))"

text \<open>
  Lines 180--188. \<^verbatim>\<open>p\<close> is an \<^verbatim>\<open>int32_t\<close>; the comparison with
  \<^verbatim>\<open>0x80000000\<close> and both divisions are unsigned, the shifts of \<^verbatim>\<open>p\<close> in lines
  186--187 are signed.
\<close>

definition pressure_of :: "bme280_calib_data \<Rightarrow> 32 word \<Rightarrow> 32 word \<Rightarrow> 32 word \<Rightarrow> 32 word option" where
  "pressure_of calib adc_P var1 var2 =
     (let p = ((1048576 - adc_P) - signed_drop_bit 12 var2) * 3125
      in case (if p < 0x80000000 then udiv32 (push_bit 1 p) var1
               else map_option (\<lambda>q. q * 2) (udiv32 p var1)) of
           None \<Rightarrow> None
         | Some p \<Rightarrow>
            (let var1 = signed_drop_bit 12
                          (scast (dig_P9 calib) *
                           signed_drop_bit 13 (signed_drop_bit 3 p * signed_drop_bit 3 p));
                 var2 = signed_drop_bit 13 (signed_drop_bit 2 p * scast (dig_P8 calib))
             in Some (p + signed_drop_bit 4 (var1 + var2 + scast (dig_P7 calib)))))"

text \<open>Lines 192--202: the integer \<^verbatim>\<open>h\<close> under the humidity field.\<close>

definition compensate_humidity :: "bme280_calib_data \<Rightarrow> 32 word \<Rightarrow> 32 word \<Rightarrow> 32 word" where
  "compensate_humidity calib t_fine adc_H =
     (let var1 = t_fine - 76800;
          var2 = signed_drop_bit 15
                   (((push_bit 14 adc_H - push_bit 20 (scast (dig_H4 calib))) -
                     scast (dig_H5 calib) * var1) + 16384) *
                 signed_drop_bit 14
                   ((signed_drop_bit 10
                       (signed_drop_bit 10 (var1 * scast (dig_H6 calib)) *
                        (signed_drop_bit 11 (var1 * ucast (dig_H3 calib)) + 32768)) +
                     2097152) * scast (dig_H2 calib) + 8192);
          var1 = var1 - signed_drop_bit 10
                   (var2 * (signed_drop_bit 10 (var1 * scast (dig_H6 calib)) *
                            (signed_drop_bit 11 (var1 * ucast (dig_H3 calib)) + 32768)));
          var1 = (if var1 <s 0 then 0 else var1);
          var1 = (if 419430400 <s var1 then 419430400 else var1)
      in signed_drop_bit 12 var1)"

text \<open>
  Lines 155--205, from the eight data bytes on. The result is \<open>None\<close> when the
  execution divides by zero, otherwise the return value and the \<^verbatim>\<open>*data\<close> it leaves.
  The temperature field is assigned (line 167) before the test of line 177.
\<close>

definition bme280_compensate :: "bme280_calib_data \<Rightarrow> 8 word list \<Rightarrow> bme280_data \<Rightarrow> (int \<times> bme280_data) option" where
  "bme280_compensate calib raw_data data =
     (let adc_P = raw_adc_P raw_data;
          adc_T = raw_adc_T raw_data;
          adc_H = raw_adc_H raw_data;
          t_fine = compensate_t_fine calib adc_T;
          data = data\<lparr>temperature := temperature_of_t_fine t_fine\<rparr>;
          var2 = pressure_var2 calib t_fine;
          var1 = pressure_var1 calib t_fine
      in if var1 = 0 then Some (- EIO, data)
         else case pressure_of calib adc_P var1 var2 of
                None \<Rightarrow> None
              | Some p \<Rightarrow>
                  Some (0, data\<lparr>pressure := p,
                                humidity := compensate_humidity calib t_fine adc_H\<rparr>))"

text \<open>
  \<^verbatim>\<open>int bme280_read_forced(struct bme280_data *data)\<close>, with the file-scope
  \<^verbatim>\<open>calib_data\<close> and the caller's \<^verbatim>\<open>*data\<close> passed in. The 10 ms sleep of line 147
  is not modelled.
\<close>

definition bme280_read_forced :: "i2c_env \<Rightarrow> bme280_calib_data \<Rightarrow> bme280_data \<Rightarrow> i2c_log \<Rightarrow> (int \<times> bme280_data) option \<times> i2c_log" where
  "bme280_read_forced env calib data bus =
     (let ctrl_meas = BME280_CTRL_MEAS_OSRS_T_1X OR BME280_CTRL_MEAS_OSRS_P_1X OR
                      BME280_CTRL_MEAS_MODE_FORCED;
          (ret, bus1) = bme280_write_reg env BME280_REG_CTRL_MEAS ctrl_meas bus
      in if ret \<noteq> 0 then (Some (- EIO, data), bus1)
         else
           (let ((ret, raw_data), bus2) = bme280_read_reg env BME280_REG_PRESS_MSB 8 bus1
            in if ret \<noteq> 0 then (Some (- EIO, data), bus2)
               else (bme280_compensate calib raw_data data, bus2)))"

section \<open>Concrete bus environments\<close>

text \<open>
  Environments used to run the drivers on concrete inputs. Transactions are counted
  from \<open>0\<close>.
\<close>

definition env_all_ok :: i2c_env where
  "env_all_ok = \<lparr> i2c_ret = (\<lambda>k. 0), i2c_rx = (\<lambda>k reg. 0) \<rparr>"

text \<open>
  For the clock: transaction \<open>j\<close> fails, every other one succeeds; the control-2
  register \<open>0x10\<close> holds \<open>0xFF\<close>, every other register 0 (the time 00:00:00).
\<close>

definition env_rtc_fail_at :: "nat \<Rightarrow> i2c_env" where
  "env_rtc_fail_at j =
     \<lparr> i2c_ret = (\<lambda>k. if k = j then - EIO else 0),
       i2c_rx = (\<lambda>k reg. if reg = 0x10 then 0xFF else 0) \<rparr>"

text \<open>
  Every transaction succeeds and the clock registers hold 23:58:00, weekday 2, date 15,
  month 1, year 24.
\<close>

definition env_235800 :: i2c_env where
  "env_235800 =
     \<lparr> i2c_ret = (\<lambda>k. 0),
       i2c_rx = (\<lambda>k reg. if reg = 0x00 then 0x00 else if reg = 0x01 then 0x58
                         else if reg = 0x02 then 0x23 else if reg = 0x03 then 0x02
                         else if reg = 0x04 then 0x15 else if reg = 0x05 then 0x01
                         else if reg = 0x06 then 0x24 else 0) \<rparr>"

text \<open>Every transaction succeeds and the clock registers hold 00:00:01, all else 0.\<close>

definition env_000001 :: i2c_env where
  "env_000001 = \<lparr> i2c_ret = (\<lambda>k. 0), i2c_rx = (\<lambda>k reg. if reg = 0x00 then 0x01 else 0) \<rparr>"

definition env_all_fail :: i2c_env where
  "env_all_fail = \<lparr> i2c_ret = (\<lambda>k. - EIO), i2c_rx = (\<lambda>k reg. 0) \<rparr>"

text \<open>
  Every transaction succeeds; register \<open>0x88\<close> holds \<open>0x70\<close> and register \<open>0x89\<close>
  holds \<open>0x6B\<close>, all others 0.
\<close>

definition env_dig_T1 :: i2c_env where
  "env_dig_T1 = \<lparr> i2c_ret = (\<lambda>k. 0),
                  i2c_rx = (\<lambda>k reg. if reg = 0x88 then 0x70 else if reg = 0x89 then 0x6B else 0) \<rparr>"

text \<open>
  Transaction 15 of the calibration load, the read of register \<open>0xE4\<close>, fails; every
  other transaction succeeds; register \<open>0xE5\<close> holds \<open>0x05\<close>, all others 0.
\<close>

definition env_h4_msb_fails :: i2c_env where
  "env_h4_msb_fails = \<lparr> i2c_ret = (\<lambda>k. if k = 15 then - EIO else 0),
                        i2c_rx = (\<lambda>k reg. if reg = 0xE5 then 0x05 else 0) \<rparr>"

text \<open>A calibration with every coefficient 0, and sensor data with every field 0.\<close>

definition calib_zero :: bme280_calib_data where
  "calib_zero =
     \<lparr> dig_T1 = 0, dig_T2 = 0, dig_T3 = 0,
       dig_P1 = 0, dig_P2 = 0, dig_P3 = 0, dig_P4 = 0, dig_P5 = 0,
       dig_P6 = 0, dig_P7 = 0, dig_P8 = 0, dig_P9 = 0,
       dig_H1 = 0, dig_H2 = 0, dig_H3 = 0, dig_H4 = 0, dig_H5 = 0, dig_H6 = 0 \<rparr>"

definition data_zero :: bme280_data where
  "data_zero = \<lparr> temperature = 0, pressure = 0, humidity = 0 \<rparr>"

text \<open>
  A calibration of the kind the sensor's manufacturer prints as an example
  (\<^verbatim>\<open>dig_T1 = 27504\<close>, \<^verbatim>\<open>dig_T2 = 26435\<close>, \<^verbatim>\<open>dig_T3 = -1000\<close>,
  \<^verbatim>\<open>dig_P1 = 36477\<close>, \<^verbatim>\<open>dig_P2 = -10685\<close>, and so on).
\<close>

definition calib_example :: bme280_calib_data where
  "calib_example =
     \<lparr> dig_T1 = 27504, dig_T2 = 26435, dig_T3 = - 1000,
       dig_P1 = 36477, dig_P2 = - 10685, dig_P3 = 3024, dig_P4 = 2855, dig_P5 = 140,
       dig_P6 = - 7, dig_P7 = 15500, dig_P8 = - 14600, dig_P9 = 6000,
       dig_H1 = 75, dig_H2 = 370, dig_H3 = 0, dig_H4 = 300, dig_H5 = 50, dig_H6 = 30 \<rparr>"

text \<open>
  Every transaction succeeds; the data registers \<open>0xF7\<close> to \<open>0xFE\<close> hold a pressure
  code of \<open>415148\<close>, a temperature code of \<open>519888\<close> and a humidity code of
  \<open>30000\<close>.
\<close>

definition env_sample :: i2c_env where
  "env_sample = \<lparr> i2c_ret = (\<lambda>k. 0),
     i2c_rx = (\<lambda>k reg. if reg = 0xF7 then 0x65 else if reg = 0xF8 then 0x5A
                       else if reg = 0xF9 then 0xC0 else if reg = 0xFA then 0x7E
                       else if reg = 0xFB then 0xED else if reg = 0xFC then 0x00
                       else if reg = 0xFD then 0x75 else if reg = 0xFE then 0x30 else 0) \<rparr>"

section \<open>Properties of the tier controller\<close>

lemmas battery_thresholds =
  BATTERY_THRESHOLD_NORMAL_HIGH_def BATTERY_THRESHOLD_NORMAL_LOW_def
  BATTERY_THRESHOLD_CONSERVE_HIGH_def BATTERY_THRESHOLD_CONSERVE_LOW_def
  BATTERY_THRESHOLD_RESERVE_HIGH_def BATTERY_THRESHOLD_RESERVE_LOW_def

lemma get_tier_fst:
  "fst (adaptive_scheduler_get_tier mv cur) = hysteresis_tier mv (ladder_tier mv) cur"
  by (simp add: adaptive_scheduler_get_tier_def Let_def)

lemma get_tier_snd:
  "snd (adaptive_scheduler_get_tier mv cur) = hysteresis_tier mv (ladder_tier mv) cur"
  by (simp add: adaptive_scheduler_get_tier_def Let_def)

lemma hysteresis_tier_step:
  "tier_ord (hysteresis_tier mv n cur) \<le> tier_ord cur + 1 \<and>
   tier_ord cur \<le> tier_ord (hysteresis_tier mv n cur) + 1"
  by (cases cur; cases n; simp add: hysteresis_tier_def)

text \<open>
  C1. For every battery reading and every current tier, one call of
  \<^verbatim>\<open>adaptive_scheduler_get_tier\<close> returns a tier whose ordinal differs from the
  current tier's ordinal by at most one, in either direction.
\<close>

theorem C1_tier_step_at_most_one:
  "tier_ord (fst (adaptive_scheduler_get_tier battery_mv current_tier)) \<le> tier_ord current_tier + 1 \<and>
   tier_ord current_tier \<le> tier_ord (fst (adaptive_scheduler_get_tier battery_mv current_tier)) + 1"
  unfolding get_tier_fst by (rule hysteresis_tier_step)

text \<open>
  C3. Starting from Normal, the readings 4000, 3700, 3550, 3550, 3300, 3650 mV fed
  through successive calls give Normal, Normal, Conserve, Conserve, Reserve, Conserve.
\<close>

theorem C3_tier_sequence:
  "tier_run POWER_TIER_NORMAL [4000, 3700, 3550, 3550, 3300, 3650] =
     [POWER_TIER_NORMAL, POWER_TIER_NORMAL, POWER_TIER_CONSERVE,
      POWER_TIER_CONSERVE, POWER_TIER_RESERVE, POWER_TIER_CONSERVE]"
  by (simp add: adaptive_scheduler_get_tier_def hysteresis_tier_def ladder_tier_def
      battery_thresholds Let_def)

text \<open>
  C7 (as stated, refuted). The claim says a call leaves the stored tier unchanged.
  With the stored tier Normal and a reading of 3500 mV the call returns Conserve and
  the stored tier after the call is Conserve.
\<close>

theorem C7_counterexample_stored_tier_changes:
  "snd (adaptive_scheduler_get_tier 3500 POWER_TIER_NORMAL) = POWER_TIER_CONSERVE \<and>
   snd (adaptive_scheduler_get_tier 3500 POWER_TIER_NORMAL) \<noteq> POWER_TIER_NORMAL"
  by (simp add: adaptive_scheduler_get_tier_def hysteresis_tier_def ladder_tier_def
      battery_thresholds Let_def)

text \<open>
  C7 (amended). The operation takes the battery reading as its only argument, reads
  the stored current tier, and itself stores the tier it returns: after every call the
  stored tier equals the returned tier.
\<close>

theorem C7_get_tier_stores_result:
  "snd (adaptive_scheduler_get_tier battery_mv current_tier) =
   fst (adaptive_scheduler_get_tier battery_mv current_tier)"
  by (simp add: adaptive_scheduler_get_tier_def Let_def)

section \<open>Properties of the real-time clock driver\<close>

lemmas rv3028_consts =
  RV3028_I2C_ADDR_def RV3028_REG_SECONDS_def RV3028_REG_CONTROL2_def
  RV3028_CTRL2_AF_def RV3028_CTRL2_AIE_def

lemmas rv3028_bus_defs =
  rv3028_clear_alarm_def rv3028_set_wakeup_time_def rv3028_get_time_def
  rv3028_read_reg_def i2c_write_read_def rv3028_set_alarm_def i2c_write_def
  rv3028_enable_alarm_interrupt_def rv3028_read_reg8_def rv3028_write_reg_def

subsection \<open>Decimal-coded bytes\<close>

lemma bcd_roundtrip_upto_99:
  "\<forall>n\<in>set [0..<100]. bcd_to_bin (bin_to_bcd (of_nat n)) = (of_nat n :: 8 word)"
  by code_simp

text \<open>
  C9. For every byte value \<open>v\<close> from 0 to 99, decoding the encoding of \<open>v\<close> gives
  \<open>v\<close> back.
\<close>

theorem C9_bcd_roundtrip:
  assumes "v \<le> 99"
  shows "bcd_to_bin (bin_to_bcd v) = v"
proof -
  from assms have "unat v < 100"
    by (simp add: word_le_nat_alt)
  then have "unat v \<in> set [0..<100]"
    by simp
  with bcd_roundtrip_upto_99
  have "bcd_to_bin (bin_to_bcd (of_nat (unat v))) = (of_nat (unat v) :: 8 word)"
    by blast
  then show ?thesis
    by simp
qed

theorem C9_bcd_roundtrip_witness:
  "(59 :: 8 word) \<le> 99 \<and> bcd_to_bin (bin_to_bcd 59) = 59"
proof -
  have h: "(59 :: 8 word) \<le> 99" by simp
  show ?thesis using h C9_bcd_roundtrip [OF h] by simp
qed

text \<open>
  The same round trip through the bytes of \<^verbatim>\<open>rv3028_set_time\<close> and the masks of
  \<^verbatim>\<open>rv3028_get_time\<close>, for a time whose fields are in their calendar ranges.
\<close>

lemma bcd_masked_7F:
  "\<forall>n\<in>set [0..<60]. bcd_to_bin (bin_to_bcd (of_nat n) AND 0x7F) = (of_nat n :: 8 word)"
  by code_simp

lemma bcd_masked_3F:
  "\<forall>n\<in>set [0..<32]. bcd_to_bin (bin_to_bcd (of_nat n) AND 0x3F) = (of_nat n :: 8 word)"
  by code_simp

lemma bcd_masked_1F:
  "\<forall>n\<in>set [0..<13]. bcd_to_bin (bin_to_bcd (of_nat n) AND 0x1F) = (of_nat n :: 8 word)"
  by code_simp

lemma weekday_masked:
  "\<forall>n\<in>set [0..<7]. (of_nat n :: 8 word) AND 0x07 = of_nat n"
  by code_simp

lemma year_roundtrip:
  "\<forall>n\<in>set [0..<100].
     2000 + ucast (bcd_to_bin (bin_to_bcd (ucast ((2000 + of_nat n :: 16 word) - 2000)))) =
     (2000 + of_nat n :: 16 word)"
  by code_simp

lemma byte_below:
  fixes v :: "8 word"
  assumes "\<forall>n\<in>set [0..<k]. P (of_nat n :: 8 word)" and "unat v < k"
  shows "P v"
proof -
  from assms(2) have "unat v \<in> set [0..<k]" by simp
  with assms(1) have "P (of_nat (unat v))" by blast
  then show ?thesis by simp
qed

lemma year_below:
  fixes y :: "16 word"
  assumes "2000 \<le> y" and "y \<le> 2099"
  shows "2000 + ucast (bcd_to_bin (bin_to_bcd (ucast (y - 2000)))) = y"
proof -
  from assms have a: "unat y - 2000 < 100" and b: "2000 \<le> unat y"
    by (simp_all add: word_le_nat_alt)
  from a have "unat y - 2000 \<in> set [0..<100]" by simp
  with year_roundtrip
  have "2000 + ucast (bcd_to_bin (bin_to_bcd (ucast ((2000 + of_nat (unat y - 2000) :: 16 word) - 2000)))) =
     (2000 + of_nat (unat y - 2000) :: 16 word)" by blast
  moreover have "(2000 + of_nat (unat y - 2000) :: 16 word) = y"
    using b by (simp add: of_nat_diff)
  ultimately show ?thesis by simp
qed

lemma decode_encode_time:
  assumes "rv3028_time.seconds t \<le> 59" "rv3028_time.minutes t \<le> 59" "rv3028_time.hours t \<le> 23"
    "rv3028_time.weekday t \<le> 6" "rv3028_time.date t \<le> 31" "rv3028_time.month t \<le> 12"
    "2000 \<le> rv3028_time.year t" "rv3028_time.year t \<le> 2099"
  shows "decode_time (encode_time t) = (t :: rv3028_time)"
proof -
  have s: "bcd_to_bin (bin_to_bcd (rv3028_time.seconds t) AND 0x7F) = rv3028_time.seconds t"
    using assms(1) by (intro byte_below [OF bcd_masked_7F]) (simp add: word_le_nat_alt)
  have m: "bcd_to_bin (bin_to_bcd (rv3028_time.minutes t) AND 0x7F) = rv3028_time.minutes t"
    using assms(2) by (intro byte_below [OF bcd_masked_7F]) (simp add: word_le_nat_alt)
  have h: "bcd_to_bin (bin_to_bcd (rv3028_time.hours t) AND 0x3F) = rv3028_time.hours t"
    using assms(3) by (intro byte_below [OF bcd_masked_3F]) (simp add: word_le_nat_alt)
  have w: "rv3028_time.weekday t AND 0x07 = rv3028_time.weekday t"
    using assms(4) by (intro byte_below [OF weekday_masked]) (simp add: word_le_nat_alt)
  have d: "bcd_to_bin (bin_to_bcd (rv3028_time.date t) AND 0x3F) = rv3028_time.date t"
    using assms(5) by (intro byte_below [OF bcd_masked_3F]) (simp add: word_le_nat_alt)
  have mo: "bcd_to_bin (bin_to_bcd (rv3028_time.month t) AND 0x1F) = rv3028_time.month t"
    using assms(6) by (intro byte_below [OF bcd_masked_1F]) (simp add: word_le_nat_alt)
  have y: "2000 + ucast (bcd_to_bin (bin_to_bcd (ucast (rv3028_time.year t - 2000)))) = rv3028_time.year t"
    using assms(7,8) by (rule year_below)
  show ?thesis
    by (simp add: decode_time_def encode_time_def s m h w d mo y)
qed

subsection \<open>The arithmetic of \<^verbatim>\<open>rv3028_set_wakeup_time\<close>\<close>

lemma unat_ucast_8_32: "unat (ucast (w :: 8 word) :: 32 word) = unat w"
  by (simp add: unsigned_ucast_eq take_bit_nat_eq_self_iff order_less_trans [OF unsigned_less])

lemma unat_lt_256: "unat (w :: 8 word) < 256"
  using unsigned_less [of w, where 'a = nat] by simp

lemma unat_ucast_32_8_small: "unat (w :: 32 word) < 256 \<Longrightarrow> unat (ucast w :: 8 word) = unat w"
  by (simp add: unsigned_ucast_eq take_bit_nat_eq_self_iff)

text \<open>
  The interval reaches the driver in seconds, \<^verbatim>\<open>interval_ms / 1000\<close>, which is
  below \<open>4294968\<close>; with three byte-sized fields the \<^verbatim>\<open>uint32_t\<close> sum cannot wrap.
\<close>

lemma unat_target_seconds:
  "unat (target_seconds t (interval_ms div 1000)) =
     unat (rv3028_time.hours t) * 3600 + unat (rv3028_time.minutes t) * 60 +
     unat (rv3028_time.seconds t) + unat interval_ms div 1000"
proof -
  have h: "unat (rv3028_time.hours t) < 256" by (rule unat_lt_256)
  have m: "unat (rv3028_time.minutes t) < 256" by (rule unat_lt_256)
  have s: "unat (rv3028_time.seconds t) < 256" by (rule unat_lt_256)
  have i: "unat interval_ms < 4294967296"
    using unsigned_less [of interval_ms, where 'a = nat] by simp
  have d: "unat (interval_ms div 1000) = unat interval_ms div 1000"
    by (simp add: unat_div)
  have small: "unat (rv3028_time.hours t) * 3600 + unat (rv3028_time.minutes t) * 60 +
     unat (rv3028_time.seconds t) + unat interval_ms div 1000 < 4294967296"
    using h m s i by linarith
  have "unat (target_seconds t (interval_ms div 1000)) =
     (unat (rv3028_time.hours t) * 3600 + unat (rv3028_time.minutes t) * 60 +
     unat (rv3028_time.seconds t) + unat interval_ms div 1000) mod 4294967296"
    unfolding target_seconds_def
    by (simp add: unat_word_ariths d unat_ucast_8_32 mod_simps)
  with small show ?thesis by simp
qed

lemma unat_alarm_fields:
  "unat (rv3028_alarm.seconds (wakeup_alarm t s)) = unat (target_seconds t s) mod 60"
  "unat (rv3028_alarm.minutes (wakeup_alarm t s)) = (unat (target_seconds t s) div 60) mod 60"
  "unat (rv3028_alarm.hours (wakeup_alarm t s)) = (unat (target_seconds t s) div 3600) mod 24"
proof -
  have a: "unat (target_seconds t s mod 60) = unat (target_seconds t s) mod 60"
    by (simp add: unat_mod)
  have b: "unat ((target_seconds t s div 60) mod 60) = (unat (target_seconds t s) div 60) mod 60"
    by (simp add: unat_mod unat_div)
  have c: "unat ((target_seconds t s div 3600) mod 24) = (unat (target_seconds t s) div 3600) mod 24"
    by (simp add: unat_mod unat_div)
  have a': "unat (target_seconds t s mod 60) < 256" unfolding a
    by (rule less_trans [OF mod_less_divisor]) simp_all
  have b': "unat ((target_seconds t s div 60) mod 60) < 256" unfolding b
    by (rule less_trans [OF mod_less_divisor]) simp_all
  have c': "unat ((target_seconds t s div 3600) mod 24) < 256" unfolding c
    by (rule less_trans [OF mod_less_divisor]) simp_all
  show "unat (rv3028_alarm.seconds (wakeup_alarm t s)) = unat (target_seconds t s) mod 60"
    using unat_ucast_32_8_small [OF a'] by (simp add: wakeup_alarm_def Let_def a)
  show "unat (rv3028_alarm.minutes (wakeup_alarm t s)) = (unat (target_seconds t s) div 60) mod 60"
    using unat_ucast_32_8_small [OF b'] by (simp add: wakeup_alarm_def Let_def b)
  show "unat (rv3028_alarm.hours (wakeup_alarm t s)) = (unat (target_seconds t s) div 3600) mod 24"
    using unat_ucast_32_8_small [OF c'] by (simp add: wakeup_alarm_def Let_def c)
qed

text \<open>
  As long as the sum does not reach \<open>2 ^ 32\<close>, the alarm the driver computes is the
  alarm of the specification.
\<close>

lemma unat_target_seconds_no_wrap:
  assumes "spec_target_seconds t (unat s) < 2 ^ 32"
  shows "unat (target_seconds t s) = spec_target_seconds t (unat s)"
proof -
  have "unat (target_seconds t s) = spec_target_seconds t (unat s) mod 4294967296"
    unfolding target_seconds_def spec_target_seconds_def
    by (simp add: unat_word_ariths unat_ucast_8_32 mod_simps)
  with assms show ?thesis by simp
qed

lemma ucast_32_8_of_nat: "(ucast (w :: 32 word) :: 8 word) = of_nat (unat w)"
  by simp

lemma wakeup_alarm_eq_spec:
  assumes "spec_target_seconds t (unat s) < 2 ^ 32"
  shows "wakeup_alarm t s = spec_alarm t (unat s)"
  using unat_target_seconds_no_wrap [OF assms]
  by (simp add: wakeup_alarm_def spec_alarm_def Let_def ucast_32_8_of_nat unat_mod unat_div
      del: of_nat_unat)

text \<open>
  The scheduler hands on \<^verbatim>\<open>interval_ms / 1000\<close>, which is below \<open>4294968\<close>; with
  three byte-sized time fields the sum cannot reach \<open>2 ^ 32\<close>.
\<close>

lemma spec_target_seconds_ms:
  "spec_target_seconds t (unat (interval_ms :: 32 word) div 1000) < 2 ^ 32"
proof -
  have h: "unat (rv3028_time.hours t) < 256" by (rule unat_lt_256)
  have m: "unat (rv3028_time.minutes t) < 256" by (rule unat_lt_256)
  have s: "unat (rv3028_time.seconds t) < 256" by (rule unat_lt_256)
  have i: "unat interval_ms < 4294967296"
    using unsigned_less [of interval_ms, where 'a = nat] by simp
  have "spec_target_seconds t (unat interval_ms div 1000) < 4294967296"
    unfolding spec_target_seconds_def using h m s i by linarith
  then show ?thesis by simp
qed

lemma unat_spec_alarm_fields:
  "unat (rv3028_alarm.seconds (spec_alarm t s)) = spec_target_seconds t s mod 60"
  "unat (rv3028_alarm.minutes (spec_alarm t s)) = (spec_target_seconds t s div 60) mod 60"
  "unat (rv3028_alarm.hours (spec_alarm t s)) = (spec_target_seconds t s div 3600) mod 24"
proof -
  have a: "spec_target_seconds t s mod 60 < 256"
    by (rule less_trans [OF mod_less_divisor]) simp_all
  have b: "(spec_target_seconds t s div 60) mod 60 < 256"
    by (rule less_trans [OF mod_less_divisor]) simp_all
  have c: "(spec_target_seconds t s div 3600) mod 24 < 256"
    by (rule less_trans [OF mod_less_divisor]) simp_all
  show "unat (rv3028_alarm.seconds (spec_alarm t s)) = spec_target_seconds t s mod 60"
    using a by (simp add: spec_alarm_def unat_of_nat)
  show "unat (rv3028_alarm.minutes (spec_alarm t s)) = (spec_target_seconds t s div 60) mod 60"
    using b by (simp add: spec_alarm_def unat_of_nat)
  show "unat (rv3028_alarm.hours (spec_alarm t s)) = (spec_target_seconds t s div 3600) mod 24"
    using c by (simp add: spec_alarm_def unat_of_nat)
qed

subsection \<open>The transactions of a run\<close>

lemma rv3028_read_reg8_eq:
  "rv3028_read_reg8 env reg bus =
     (rv3028_reg8_at env (length bus) reg, bus @ [I2C_write_read RV3028_I2C_ADDR reg 1])"
  by (simp add: rv3028_read_reg8_def rv3028_read_reg_def i2c_write_read_def rv3028_reg8_at_def)

lemma rv3028_clear_alarm_eq:
  "rv3028_clear_alarm env bus =
     (i2c_ret env (length bus + 1),
      bus @ [I2C_write_read RV3028_I2C_ADDR RV3028_REG_CONTROL2 1,
             I2C_write RV3028_I2C_ADDR
               [RV3028_REG_CONTROL2,
                rv3028_reg8_at env (length bus) RV3028_REG_CONTROL2 AND NOT RV3028_CTRL2_AF]])"
  by (simp add: rv3028_clear_alarm_def rv3028_read_reg8_eq rv3028_write_reg_def i2c_write_def)

lemma rv3028_enable_alarm_interrupt_eq:
  "rv3028_enable_alarm_interrupt env bus =
     (i2c_ret env (length bus + 1),
      bus @ [I2C_write_read RV3028_I2C_ADDR RV3028_REG_CONTROL2 1,
             I2C_write RV3028_I2C_ADDR
               [RV3028_REG_CONTROL2,
                rv3028_reg8_at env (length bus) RV3028_REG_CONTROL2 OR RV3028_CTRL2_AIE]])"
  by (simp add: rv3028_enable_alarm_interrupt_def rv3028_read_reg8_eq rv3028_write_reg_def
      i2c_write_def)

lemma rv3028_get_time_eq:
  "rv3028_get_time env bus =
     (if i2c_ret env (length bus) \<noteq> 0 then Inl (i2c_ret env (length bus))
      else Inr (time_read env (length bus)),
      bus @ [I2C_write_read RV3028_I2C_ADDR RV3028_REG_SECONDS 7])"
  by (simp add: rv3028_get_time_def rv3028_read_reg_def i2c_write_read_def time_read_def)

lemma rv3028_set_wakeup_time_eq:
  "rv3028_set_wakeup_time env seconds_from_now bus =
     (let n = length bus;
          rd = I2C_write_read RV3028_I2C_ADDR RV3028_REG_SECONDS 7;
          wr = I2C_write RV3028_I2C_ADDR
                 (encode_alarm (wakeup_alarm (time_read env n) seconds_from_now));
          en = [I2C_write_read RV3028_I2C_ADDR RV3028_REG_CONTROL2 1,
                I2C_write RV3028_I2C_ADDR
                  [RV3028_REG_CONTROL2,
                   rv3028_reg8_at env (n + 2) RV3028_REG_CONTROL2 OR RV3028_CTRL2_AIE]]
      in if i2c_ret env n \<noteq> 0 then (i2c_ret env n, bus @ [rd])
         else if i2c_ret env (n + 1) \<noteq> 0 then (i2c_ret env (n + 1), bus @ [rd, wr])
         else (i2c_ret env (n + 3), bus @ [rd, wr] @ en))"
  by (simp add: rv3028_set_wakeup_time_def rv3028_get_time_eq rv3028_set_alarm_def i2c_write_def
      rv3028_enable_alarm_interrupt_eq Let_def eval_nat_numeral)

lemma set_next_wake_eq:
  "adaptive_scheduler_set_next_wake env interval_ms bus =
     (let n = length bus;
          clear = [I2C_write_read RV3028_I2C_ADDR RV3028_REG_CONTROL2 1,
                   I2C_write RV3028_I2C_ADDR
                     [RV3028_REG_CONTROL2,
                      rv3028_reg8_at env n RV3028_REG_CONTROL2 AND NOT RV3028_CTRL2_AF]];
          rd = I2C_write_read RV3028_I2C_ADDR RV3028_REG_SECONDS 7;
          wr = I2C_write RV3028_I2C_ADDR
                 (encode_alarm (wakeup_alarm (time_read env (n + 2)) (interval_ms div 1000)));
          en = [I2C_write_read RV3028_I2C_ADDR RV3028_REG_CONTROL2 1,
                I2C_write RV3028_I2C_ADDR
                  [RV3028_REG_CONTROL2,
                   rv3028_reg8_at env (n + 4) RV3028_REG_CONTROL2 OR RV3028_CTRL2_AIE]]
      in if i2c_ret env (n + 2) \<noteq> 0 then (i2c_ret env (n + 2), bus @ clear @ [rd])
         else if i2c_ret env (n + 3) \<noteq> 0 then (i2c_ret env (n + 3), bus @ clear @ [rd, wr])
         else (i2c_ret env (n + 5), bus @ clear @ [rd, wr] @ en))"
  by (simp add: adaptive_scheduler_set_next_wake_def rv3028_clear_alarm_eq
      rv3028_set_wakeup_time_eq Let_def eval_nat_numeral)

lemma set_wakeup_time_writes_alarm:
  "i2c_ret env (length bus) = 0 \<Longrightarrow>
   snd (rv3028_set_wakeup_time env s bus) ! (length bus + 1) =
     I2C_write RV3028_I2C_ADDR (encode_alarm (wakeup_alarm (time_read env (length bus)) s))"
  by (simp add: rv3028_set_wakeup_time_eq Let_def nth_append)

lemma set_next_wake_writes_alarm:
  "i2c_ret env (length bus + 2) = 0 \<Longrightarrow>
   snd (adaptive_scheduler_set_next_wake env interval_ms bus) ! (length bus + 3) =
     I2C_write RV3028_I2C_ADDR
       (encode_alarm (wakeup_alarm (time_read env (length bus + 2)) (interval_ms div 1000)))"
  by (simp add: set_next_wake_eq Let_def nth_append eval_nat_numeral)

subsection \<open>The alarm written by \<^verbatim>\<open>rv3028_set_wakeup_time\<close>\<close>

text \<open>
  C2 (as stated, refuted). The clock reads 00:00:01 and \<^verbatim>\<open>rv3028_set_wakeup_time\<close>
  is called with an interval of 4294967295 seconds. The \<^verbatim>\<open>uint32_t\<close> sum wraps to 0
  and the driver writes the alarm 00:00:00, where the formula of the claim, with
  \<open>targetSeconds = 4294967296\<close>, gives 06:28:16.
\<close>

theorem C2_counterexample_direct_call_wraps:
  "time_read env_000001 0 =
     \<lparr> rv3028_time.seconds = 1, minutes = 0, hours = 0, weekday = 0, date = 0,
       month = 0, year = 2000 \<rparr> \<and>
   snd (rv3028_set_wakeup_time env_000001 4294967295 []) ! 1 =
     I2C_write 0x52
       (encode_alarm \<lparr> rv3028_alarm.seconds = 0, minutes = 0, hours = 0, weekday = 0, date = 0 \<rparr>) \<and>
   spec_alarm (time_read env_000001 0) 4294967295 =
     \<lparr> rv3028_alarm.seconds = 16, minutes = 28, hours = 6, weekday = 0, date = 0 \<rparr>"
  by (simp add: rv3028_set_wakeup_time_eq Let_def time_read_def decode_time_def env_000001_def
      wakeup_alarm_def target_seconds_def spec_alarm_def spec_target_seconds_def
      bcd_to_bin_def rv3028_consts)

text \<open>
  C2 (amended). When the time read succeeds, the alarm bytes that
  \<^verbatim>\<open>adaptive_scheduler_set_next_wake\<close> writes, for every time read and every
  interval in milliseconds, are those of the alarm of the specification for
  \<open>interval / 1000\<close> seconds; the alarm bytes that \<^verbatim>\<open>rv3028_set_wakeup_time\<close>
  writes, for every time read and every interval in seconds for which
  \<open>targetSeconds\<close> stays below \<open>2 ^ 32\<close>, are those of the alarm of the
  specification. That alarm has hours \<open>(targetSeconds / 3600) mod 24\<close>, minutes
  \<open>(targetSeconds / 60) mod 60\<close>, seconds \<open>targetSeconds mod 60\<close> and the weekday
  and date of the time read, whether or not \<open>targetSeconds\<close> reaches 86400. With the
  clock at 23:58:00, weekday 2, date 15 and an interval of 300000 ms the alarm written
  is 00:03:00, weekday 2, date 15.
\<close>

theorem C2_alarm_written:
  "(i2c_ret env (length bus + 2) = 0 \<longrightarrow>
      snd (adaptive_scheduler_set_next_wake env interval_ms bus) ! (length bus + 3) =
        I2C_write RV3028_I2C_ADDR
          (encode_alarm (spec_alarm (time_read env (length bus + 2)) (unat interval_ms div 1000)))) \<and>
   (i2c_ret env (length bus) = 0 \<and>
    spec_target_seconds (time_read env (length bus)) (unat seconds_from_now) < 2 ^ 32 \<longrightarrow>
      snd (rv3028_set_wakeup_time env seconds_from_now bus) ! (length bus + 1) =
        I2C_write RV3028_I2C_ADDR
          (encode_alarm (spec_alarm (time_read env (length bus)) (unat seconds_from_now)))) \<and>
   unat (rv3028_alarm.hours (spec_alarm t s)) = (spec_target_seconds t s div 3600) mod 24 \<and>
   unat (rv3028_alarm.minutes (spec_alarm t s)) = (spec_target_seconds t s div 60) mod 60 \<and>
   unat (rv3028_alarm.seconds (spec_alarm t s)) = spec_target_seconds t s mod 60 \<and>
   rv3028_alarm.weekday (spec_alarm t s) = rv3028_time.weekday t \<and>
   rv3028_alarm.date (spec_alarm t s) = rv3028_time.date t \<and>
   time_read env_235800 2 =
     \<lparr> rv3028_time.seconds = 0, minutes = 58, hours = 23, weekday = 2, date = 15,
       month = 1, year = 2024 \<rparr> \<and>
   snd (adaptive_scheduler_set_next_wake env_235800 300000 []) ! 3 =
     I2C_write RV3028_I2C_ADDR
       (encode_alarm \<lparr> rv3028_alarm.seconds = 0, minutes = 3, hours = 0, weekday = 2, date = 15 \<rparr>)"
proof -
  have ms: "wakeup_alarm (time_read env (length bus + 2)) (interval_ms div 1000) =
      spec_alarm (time_read env (length bus + 2)) (unat interval_ms div 1000)"
    using wakeup_alarm_eq_spec [of "time_read env (length bus + 2)" "interval_ms div 1000"]
      spec_target_seconds_ms [of "time_read env (length bus + 2)" interval_ms]
    by (simp add: unat_div)
  have a: "i2c_ret env (length bus + 2) = 0 \<longrightarrow>
      snd (adaptive_scheduler_set_next_wake env interval_ms bus) ! (length bus + 3) =
        I2C_write RV3028_I2C_ADDR
          (encode_alarm (spec_alarm (time_read env (length bus + 2)) (unat interval_ms div 1000)))"
  proof
    assume "i2c_ret env (length bus + 2) = 0"
    from set_next_wake_writes_alarm [OF this, of interval_ms]
    show "snd (adaptive_scheduler_set_next_wake env interval_ms bus) ! (length bus + 3) =
        I2C_write RV3028_I2C_ADDR
          (encode_alarm (spec_alarm (time_read env (length bus + 2)) (unat interval_ms div 1000)))"
      unfolding ms .
  qed
  have b: "i2c_ret env (length bus) = 0 \<and>
    spec_target_seconds (time_read env (length bus)) (unat seconds_from_now) < 2 ^ 32 \<longrightarrow>
      snd (rv3028_set_wakeup_time env seconds_from_now bus) ! (length bus + 1) =
        I2C_write RV3028_I2C_ADDR
          (encode_alarm (spec_alarm (time_read env (length bus)) (unat seconds_from_now)))"
  proof
    assume h: "i2c_ret env (length bus) = 0 \<and>
      spec_target_seconds (time_read env (length bus)) (unat seconds_from_now) < 2 ^ 32"
    from h have r: "i2c_ret env (length bus) = 0" ..
    from h have "spec_target_seconds (time_read env (length bus)) (unat seconds_from_now) < 2 ^ 32" ..
    then have eq: "wakeup_alarm (time_read env (length bus)) seconds_from_now =
        spec_alarm (time_read env (length bus)) (unat seconds_from_now)"
      by (rule wakeup_alarm_eq_spec)
    from set_wakeup_time_writes_alarm [OF r, of seconds_from_now]
    show "snd (rv3028_set_wakeup_time env seconds_from_now bus) ! (length bus + 1) =
        I2C_write RV3028_I2C_ADDR
          (encode_alarm (spec_alarm (time_read env (length bus)) (unat seconds_from_now)))"
      unfolding eq .
  qed
  have c: "rv3028_alarm.weekday (spec_alarm t s) = rv3028_time.weekday t"
    "rv3028_alarm.date (spec_alarm t s) = rv3028_time.date t"
    by (simp_all add: spec_alarm_def)
  have d: "time_read env_235800 k =
     \<lparr> rv3028_time.seconds = 0, minutes = 58, hours = 23, weekday = 2, date = 15,
       month = 1, year = 2024 \<rparr>" for k
    by (simp add: time_read_def decode_time_def env_235800_def bcd_to_bin_def rv3028_consts)
  have e: "snd (adaptive_scheduler_set_next_wake env_235800 300000 []) ! 3 =
     I2C_write RV3028_I2C_ADDR
       (encode_alarm \<lparr> rv3028_alarm.seconds = 0, minutes = 3, hours = 0, weekday = 2, date = 15 \<rparr>)"
  proof -
    have r: "i2c_ret env_235800 (length ([] :: i2c_log) + 2) = 0"
      by (simp add: env_235800_def)
    from set_next_wake_writes_alarm [OF r, of 300000]
    show ?thesis
      by (simp add: d wakeup_alarm_def target_seconds_def)
  qed
  show ?thesis
    using a b c d [of 2] e by (simp only: unat_spec_alarm_fields simp_thms)
qed

theorem C2_alarm_written_witness:
  "i2c_ret env_235800 2 = 0 \<and>
   snd (adaptive_scheduler_set_next_wake env_235800 300000 []) ! 3 =
     I2C_write 0x52 [0x00, 0x03, 0x00, 0x02, 0x15] \<and>
   i2c_ret env_235800 0 = 0 \<and>
   spec_target_seconds (time_read env_235800 0) 300 < 2 ^ 32 \<and>
   snd (rv3028_set_wakeup_time env_235800 300 []) ! 1 =
     I2C_write 0x52 [0x00, 0x03, 0x00, 0x02, 0x15]"
  using C2_alarm_written [where env = env_235800 and bus = "[]" and interval_ms = 300000
      and seconds_from_now = 300]
  by (simp add: spec_alarm_def spec_target_seconds_def time_read_def decode_time_def
      env_235800_def bcd_to_bin_def bin_to_bcd_def encode_alarm_def rv3028_consts)


subsection \<open>Bus failures while programming the wake-up\<close>

text \<open>
  A run only appends transactions: the bus it leaves starts with the bus it found.
\<close>

lemma set_next_wake_extends_bus:
  "take (length bus) (snd (adaptive_scheduler_set_next_wake env interval_ms bus)) = bus"
  by (simp add: adaptive_scheduler_set_next_wake_def rv3028_bus_defs Let_def
      split: prod.splits)

text \<open>
  C6 (as stated, refuted). The control-2 register holds \<open>0xFF\<close> and the fifth
  transaction of the run, the read of that register inside
  \<^verbatim>\<open>rv3028_enable_alarm_interrupt\<close>, fails. The run does not abort: the sixth
  transaction is still performed, writing \<open>0x08\<close> (0 with the interrupt bit set, not
  \<open>0xFF\<close>), and the operation returns 0.
\<close>

theorem C6_counterexample_failed_read_not_reported:
  "i2c_ret (env_rtc_fail_at 4) 4 = - 5 \<and>
   i2c_rx (env_rtc_fail_at 4) 4 0x10 = 0xFF \<and>
   adaptive_scheduler_set_next_wake (env_rtc_fail_at 4) 300000 [] =
     (0, [I2C_write_read 0x52 0x10 1, I2C_write 0x52 [0x10, 0xBF],
          I2C_write_read 0x52 0x00 7, I2C_write 0x52 [0, 5, 0, 0, 0],
          I2C_write_read 0x52 0x10 1, I2C_write 0x52 [0x10, 0x08]])"
  by (simp add: adaptive_scheduler_set_next_wake_def rv3028_bus_defs rv3028_consts
      Let_def env_rtc_fail_at_def EIO_def decode_time_def encode_alarm_def wakeup_alarm_def
      target_seconds_def bcd_to_bin_def bin_to_bcd_def)

text \<open>
  C6 (amended), for the runs in which the write that clears the alarm flag succeeds.
  With \<open>n\<close> transactions on the bus before the call, the run reads control-2
  (\<open>n\<close>) and writes it back with the alarm flag cleared (\<open>n + 1\<close>), reads the time
  (\<open>n + 2\<close>), writes the alarm (\<open>n + 3\<close>), reads control-2 (\<open>n + 4\<close>) and writes it
  back with the interrupt enabled (\<open>n + 5\<close>). If the time read fails, the run ends
  with that read and returns its code; otherwise, if the alarm write fails, the run ends
  with that write and returns its code; otherwise all six transactions are performed
  and the run returns the code of the last write. A failed read of control-2 does not
  end the run: the byte 0 stands for the byte read in the write that follows.
\<close>

theorem C6_abort_points:
  assumes "i2c_ret env (length bus + 1) = 0"
  shows "adaptive_scheduler_set_next_wake env interval_ms bus =
     (let n = length bus;
          clear = [I2C_write_read RV3028_I2C_ADDR RV3028_REG_CONTROL2 1,
                   I2C_write RV3028_I2C_ADDR
                     [RV3028_REG_CONTROL2,
                      (if i2c_ret env n \<noteq> 0 then 0 else i2c_rx env n RV3028_REG_CONTROL2)
                        AND NOT RV3028_CTRL2_AF]];
          rd = I2C_write_read RV3028_I2C_ADDR RV3028_REG_SECONDS 7;
          wr = I2C_write RV3028_I2C_ADDR
                 (encode_alarm (wakeup_alarm (time_read env (n + 2)) (interval_ms div 1000)));
          en = [I2C_write_read RV3028_I2C_ADDR RV3028_REG_CONTROL2 1,
                I2C_write RV3028_I2C_ADDR
                  [RV3028_REG_CONTROL2,
                   (if i2c_ret env (n + 4) \<noteq> 0 then 0
                    else i2c_rx env (n + 4) RV3028_REG_CONTROL2) OR RV3028_CTRL2_AIE]]
      in if i2c_ret env (n + 2) \<noteq> 0 then (i2c_ret env (n + 2), bus @ clear @ [rd])
         else if i2c_ret env (n + 3) \<noteq> 0 then (i2c_ret env (n + 3), bus @ clear @ [rd, wr])
         else (i2c_ret env (n + 5), bus @ clear @ [rd, wr] @ en))"
  unfolding set_next_wake_eq rv3028_reg8_at_def ..

theorem C6_abort_points_witness:
  "i2c_ret (env_rtc_fail_at 2) 1 = 0 \<and>
   i2c_ret (env_rtc_fail_at 2) 2 = - 5 \<and>
   adaptive_scheduler_set_next_wake (env_rtc_fail_at 2) 300000 [] =
     (- 5, [I2C_write_read 0x52 0x10 1, I2C_write 0x52 [0x10, 0xBF],
            I2C_write_read 0x52 0x00 7])"
proof -
  have h: "i2c_ret (env_rtc_fail_at 2) (length ([] :: i2c_log) + 1) = 0"
    by (simp add: env_rtc_fail_at_def)
  show ?thesis
    using C6_abort_points [OF h, of 300000]
    by (simp add: env_rtc_fail_at_def EIO_def rv3028_consts)
qed

section \<open>Properties of the sensor driver\<close>

lemmas bme280_consts =
  BME280_I2C_ADDR_def BME280_REG_PRESS_MSB_def BME280_REG_CTRL_MEAS_def
  BME280_CTRL_MEAS_OSRS_T_1X_def BME280_CTRL_MEAS_OSRS_P_1X_def BME280_CTRL_MEAS_MODE_FORCED_def

lemmas bme280_bus_defs =
  bme280_read_reg_def bme280_write_reg_def bme280_read_reg8_def bme280_read_reg16_def
  bme280_read_reg16_signed_def i2c_write_read_def i2c_write_def

subsection \<open>Loading the calibration\<close>

lemma bme280_read_reg8_eq:
  "bme280_read_reg8 env reg bus =
     (reg8_at env (length bus) reg, bus @ [I2C_write_read BME280_I2C_ADDR reg 1])"
  by (simp add: bme280_read_reg8_def bme280_read_reg_def i2c_write_read_def reg8_at_def)

lemma bme280_read_reg16_eq:
  "bme280_read_reg16 env reg bus =
     (reg16_at env (length bus) reg, bus @ [I2C_write_read BME280_I2C_ADDR reg 2])"
  by (simp add: bme280_read_reg16_def bme280_read_reg_def i2c_write_read_def reg16_at_def
      eval_nat_numeral)

lemma reg16_at_failed: "i2c_ret env k \<noteq> 0 \<Longrightarrow> reg16_at env k reg = 0"
  by (simp add: reg16_at_def)

lemma reg8_at_failed: "i2c_ret env k \<noteq> 0 \<Longrightarrow> reg8_at env k reg = 0"
  by (simp add: reg8_at_def)

text \<open>
  The load performs twenty reads, in the order of the source, whatever their
  outcomes, and returns 0.
\<close>

lemma bme280_read_calibration_data_eq:
  "bme280_read_calibration_data env bus =
     (let n = length bus in
      (0,
       \<lparr> dig_T1 = reg16_at env n BME280_REG_DIG_T1,
         dig_T2 = reg16_at env (n + 1) BME280_REG_DIG_T2,
         dig_T3 = reg16_at env (n + 2) BME280_REG_DIG_T3,
         dig_P1 = reg16_at env (n + 3) BME280_REG_DIG_P1,
         dig_P2 = reg16_at env (n + 4) BME280_REG_DIG_P2,
         dig_P3 = reg16_at env (n + 5) BME280_REG_DIG_P3,
         dig_P4 = reg16_at env (n + 6) BME280_REG_DIG_P4,
         dig_P5 = reg16_at env (n + 7) BME280_REG_DIG_P5,
         dig_P6 = reg16_at env (n + 8) BME280_REG_DIG_P6,
         dig_P7 = reg16_at env (n + 9) BME280_REG_DIG_P7,
         dig_P8 = reg16_at env (n + 10) BME280_REG_DIG_P8,
         dig_P9 = reg16_at env (n + 11) BME280_REG_DIG_P9,
         dig_H1 = reg8_at env (n + 12) BME280_REG_DIG_H1,
         dig_H2 = reg16_at env (n + 13) BME280_REG_DIG_H2,
         dig_H3 = reg8_at env (n + 14) BME280_REG_DIG_H3,
         dig_H4 = ucast (push_bit 4 (ucast (reg8_at env (n + 15) BME280_REG_DIG_H4) :: 32 word) OR
                         (ucast (reg8_at env (n + 16) (BME280_REG_DIG_H4 + 1)) AND 0x0F)),
         dig_H5 = ucast (push_bit 4 (ucast (reg8_at env (n + 17) (BME280_REG_DIG_H5 + 1)) :: 32 word) OR
                         (drop_bit 4 (ucast (reg8_at env (n + 18) BME280_REG_DIG_H5)) AND 0x0F)),
         dig_H6 = reg8_at env (n + 19) BME280_REG_DIG_H6 \<rparr>,
       bus @ [I2C_write_read BME280_I2C_ADDR BME280_REG_DIG_T1 2,
              I2C_write_read BME280_I2C_ADDR BME280_REG_DIG_T2 2,
              I2C_write_read BME280_I2C_ADDR BME280_REG_DIG_T3 2,
              I2C_write_read BME280_I2C_ADDR BME280_REG_DIG_P1 2,
              I2C_write_read BME280_I2C_ADDR BME280_REG_DIG_P2 2,
              I2C_write_read BME280_I2C_ADDR BME280_REG_DIG_P3 2,
              I2C_write_read BME280_I2C_ADDR BME280_REG_DIG_P4 2,
              I2C_write_read BME280_I2C_ADDR BME280_REG_DIG_P5 2,
              I2C_write_read BME280_I2C_ADDR BME280_REG_DIG_P6 2,
              I2C_write_read BME280_I2C_ADDR BME280_REG_DIG_P7 2,
              I2C_write_read BME280_I2C_ADDR BME280_REG_DIG_P8 2,
              I2C_write_read BME280_I2C_ADDR BME280_REG_DIG_P9 2,
              I2C_write_read BME280_I2C_ADDR BME280_REG_DIG_H1 1,
              I2C_write_read BME280_I2C_ADDR BME280_REG_DIG_H2 2,
              I2C_write_read BME280_I2C_ADDR BME280_REG_DIG_H3 1,
              I2C_write_read BME280_I2C_ADDR BME280_REG_DIG_H4 1,
              I2C_write_read BME280_I2C_ADDR (BME280_REG_DIG_H4 + 1) 1,
              I2C_write_read BME280_I2C_ADDR (BME280_REG_DIG_H5 + 1) 1,
              I2C_write_read BME280_I2C_ADDR BME280_REG_DIG_H5 1,
              I2C_write_read BME280_I2C_ADDR BME280_REG_DIG_H6 1]))"
  by (simp add: bme280_read_calibration_data_def bme280_read_reg16_signed_def
      bme280_read_reg16_eq bme280_read_reg8_eq Let_def eval_nat_numeral)

text \<open>
  A successful \<^verbatim>\<open>bme280_read_reg16\<close> puts the byte of register \<open>reg\<close> into the
  high-order half of its result and the byte of register \<open>reg + 1\<close> into the
  low-order half.
\<close>

lemma high_byte_first:
  fixes b0 b1 :: "8 word"
  shows "ucast (drop_bit 8 (ucast (push_bit 8 (ucast b0 :: 32 word) OR ucast b1) :: 16 word)) = b0"
    and "ucast (ucast (push_bit 8 (ucast b0 :: 32 word) OR ucast b1) :: 16 word) = b1"
  by (rule bit_word_eqI; auto simp add: bit_simps dest: bit_imp_le_length)+

lemma bme280_read_reg16_byte_order:
  assumes "i2c_ret env (length bus) = 0"
  shows "ucast (drop_bit 8 (fst (bme280_read_reg16 env reg bus))) = i2c_rx env (length bus) reg"
    and "ucast (fst (bme280_read_reg16 env reg bus)) = i2c_rx env (length bus) (reg + 1)"
  using assms unfolding bme280_read_reg16_eq reg16_at_def
  by (simp_all add: high_byte_first)

text \<open>
  C4 (the code at a failing input). The claim wants the byte at the lower register
  offset to be the low-order byte of a coefficient. With register \<open>0x88\<close> holding
  \<open>0x70\<close> and register \<open>0x89\<close> holding \<open>0x6B\<close>, the little-endian coefficient is
  \<open>0x6B70\<close> (27504); the code loads \<^verbatim>\<open>dig_T1\<close> as \<open>0x706B\<close> (28779).
\<close>

theorem C4_dig_T1_first_byte_is_high:
  "fst (bme280_read_reg16 env_dig_T1 BME280_REG_DIG_T1 []) = 0x706B \<and>
   dig_T1 (fst (snd (bme280_read_calibration_data env_dig_T1 []))) = 0x706B \<and>
   (0x706B :: 16 word) \<noteq> 0x6B70"
  unfolding bme280_read_calibration_data_eq bme280_read_reg16_eq Let_def
  by (simp add: env_dig_T1_def reg16_at_def BME280_REG_DIG_T1_def)

text \<open>
  C8 (as stated, refuted). In the load below only the read of register \<open>0xE4\<close>, the
  high part of \<^verbatim>\<open>dig_H4\<close>, fails, and register \<open>0xE5\<close> holds \<open>0x05\<close>. The load
  returns 0, and the coefficient \<^verbatim>\<open>dig_H4\<close>, one of whose reads failed, is 5, not 0.
\<close>

theorem C8_counterexample_high_byte_read_fails:
  "i2c_ret env_h4_msb_fails 15 \<noteq> 0 \<and>
   fst (bme280_read_calibration_data env_h4_msb_fails []) = 0 \<and>
   dig_H4 (fst (snd (bme280_read_calibration_data env_h4_msb_fails []))) = 5"
  unfolding bme280_read_calibration_data_eq Let_def
  by (simp add: env_h4_msb_fails_def EIO_def reg8_at_def BME280_REG_DIG_H4_def)

text \<open>
  C8 (amended). For every pattern of read failures the load performs all twenty reads
  and returns 0. Each of the sixteen coefficients loaded by one read is 0 when that read
  failed. \<^verbatim>\<open>dig_H4\<close> and \<^verbatim>\<open>dig_H5\<close> are each assembled from two one-byte reads, in
  which a failed read counts as the byte 0: they are 0 when both of their reads failed,
  and keep the bits of the other byte when only one failed. Here \<open>failed k\<close> says that
  the \<open>k\<close>-th read of the load (from 0) failed.
\<close>

theorem C8_failed_reads_yield_zero:
  "(case bme280_read_calibration_data env bus of
      (ret, calib, bus') \<Rightarrow>
        (let n = length bus; failed = (\<lambda>k. i2c_ret env (n + k) \<noteq> 0) in
         ret = 0 \<and> length bus' = n + 20 \<and>
         (failed 0 \<longrightarrow> dig_T1 calib = 0) \<and>
         (failed 1 \<longrightarrow> dig_T2 calib = 0) \<and>
         (failed 2 \<longrightarrow> dig_T3 calib = 0) \<and>
         (failed 3 \<longrightarrow> dig_P1 calib = 0) \<and>
         (failed 4 \<longrightarrow> dig_P2 calib = 0) \<and>
         (failed 5 \<longrightarrow> dig_P3 calib = 0) \<and>
         (failed 6 \<longrightarrow> dig_P4 calib = 0) \<and>
         (failed 7 \<longrightarrow> dig_P5 calib = 0) \<and>
         (failed 8 \<longrightarrow> dig_P6 calib = 0) \<and>
         (failed 9 \<longrightarrow> dig_P7 calib = 0) \<and>
         (failed 10 \<longrightarrow> dig_P8 calib = 0) \<and>
         (failed 11 \<longrightarrow> dig_P9 calib = 0) \<and>
         (failed 12 \<longrightarrow> dig_H1 calib = 0) \<and>
         (failed 13 \<longrightarrow> dig_H2 calib = 0) \<and>
         (failed 14 \<longrightarrow> dig_H3 calib = 0) \<and>
         (failed 19 \<longrightarrow> dig_H6 calib = 0) \<and>
         (failed 15 \<and> failed 16 \<longrightarrow> dig_H4 calib = 0) \<and>
         (failed 17 \<and> failed 18 \<longrightarrow> dig_H5 calib = 0) \<and>
         dig_H4 calib =
           ucast (push_bit 4 (ucast (reg8_at env (n + 15) 0xE4) :: 32 word) OR
                  (ucast (reg8_at env (n + 16) 0xE5) AND 0x0F)) \<and>
         dig_H5 calib =
           ucast (push_bit 4 (ucast (reg8_at env (n + 17) 0xE6) :: 32 word) OR
                  (drop_bit 4 (ucast (reg8_at env (n + 18) 0xE5)) AND 0x0F))))"
  unfolding bme280_read_calibration_data_eq Let_def
  by (simp add: reg16_at_failed reg8_at_failed BME280_REG_DIG_H4_def BME280_REG_DIG_H5_def)

theorem C8_failed_reads_yield_zero_witness:
  "i2c_ret env_all_fail 15 \<noteq> 0 \<and>
   bme280_read_calibration_data env_all_fail [] =
     (0, calib_zero, snd (snd (bme280_read_calibration_data env_all_fail [])))"
  using C8_failed_reads_yield_zero [where env = env_all_fail and bus = "[]"]
  by (simp add: env_all_fail_def EIO_def calib_zero_def split: prod.splits)

subsection \<open>Compensation\<close>

lemma udiv32_Some: "b \<noteq> 0 \<Longrightarrow> udiv32 a b = Some (a div b)"
  by (simp add: udiv32_def)

lemma pressure_of_defined: "var1 \<noteq> 0 \<Longrightarrow> pressure_of calib adc_P var1 var2 \<noteq> None"
  by (simp add: pressure_of_def Let_def udiv32_Some)

lemma bme280_compensate_defined: "bme280_compensate calib raw data \<noteq> None"
proof (cases "pressure_var1 calib (compensate_t_fine calib (raw_adc_T raw)) = 0")
  case True
  then show ?thesis
    by (simp add: bme280_compensate_def Let_def)
next
  case False
  from pressure_of_defined [OF False]
  show ?thesis
    using False by (auto simp add: bme280_compensate_def Let_def split: option.splits)
qed

lemma bme280_compensate_zero_var1:
  "pressure_var1 calib (compensate_t_fine calib (raw_adc_T raw)) = 0 \<Longrightarrow>
   bme280_compensate calib raw data =
     Some (- EIO, data\<lparr>temperature := temperature_of_t_fine (compensate_t_fine calib (raw_adc_T raw))\<rparr>)"
  by (simp add: bme280_compensate_def Let_def)

lemma bme280_compensate_humidity:
  "bme280_compensate calib raw data = Some (0, d) \<Longrightarrow>
   humidity d = compensate_humidity calib (compensate_t_fine calib (raw_adc_T raw)) (raw_adc_H raw)"
  by (auto simp add: bme280_compensate_def Let_def EIO_def split: if_splits option.splits)

text \<open>
  \<^verbatim>\<open>bme280_read_forced\<close> either returns \<^verbatim>\<open>-EIO\<close> with \<^verbatim>\<open>*data\<close> untouched (a
  bus failure), or goes on to the compensation of the eight bytes read in its second
  transaction.
\<close>

lemma bme280_read_forced_cases:
  "fst (bme280_read_forced env calib data bus) = Some (- EIO, data) \<or>
   fst (bme280_read_forced env calib data bus) =
     bme280_compensate calib
       (map (\<lambda>i. i2c_rx env (Suc (length bus)) (BME280_REG_PRESS_MSB + of_nat i)) [0..<8]) data"
  by (simp add: bme280_read_forced_def bme280_bus_defs Let_def split: prod.splits)

text \<open>
  C5. No run of \<^verbatim>\<open>bme280_read_forced\<close> divides by zero (the result is never
  \<open>None\<close>), and whenever the pressure intermediate \<^verbatim>\<open>var1\<close>, computed from the
  calibration and the eight data bytes the sensor delivers in the second transaction
  of the run, is zero, the function returns the error code \<^verbatim>\<open>-EIO\<close>, which is not
  0: the division is reached only with a non-zero \<^verbatim>\<open>var1\<close>.
\<close>

theorem C5_zero_divisor_is_error:
  "fst (bme280_read_forced env calib data bus) \<noteq> None \<and>
   (pressure_var1 calib (compensate_t_fine calib (raw_adc_T
        (map (\<lambda>i. i2c_rx env (Suc (length bus)) (BME280_REG_PRESS_MSB + of_nat i)) [0..<8]))) = 0 \<longrightarrow>
    map_option fst (fst (bme280_read_forced env calib data bus)) = Some (- EIO) \<and> - EIO \<noteq> 0)"
  using bme280_read_forced_cases [of env calib data bus]
    bme280_compensate_defined [of calib "map (\<lambda>i. i2c_rx env (Suc (length bus)) (BME280_REG_PRESS_MSB + of_nat i)) [0..<8]" data]
    bme280_compensate_zero_var1 [of calib "map (\<lambda>i. i2c_rx env (Suc (length bus)) (BME280_REG_PRESS_MSB + of_nat i)) [0..<8]" data]
  by (auto simp add: EIO_def)

theorem C5_zero_divisor_is_error_witness:
  "pressure_var1 calib_zero (compensate_t_fine calib_zero (raw_adc_T
        (map (\<lambda>i. i2c_rx env_all_ok (Suc (length ([] :: i2c_log))) (BME280_REG_PRESS_MSB + of_nat i)) [0..<8]))) = 0 \<and>
   map_option fst (fst (bme280_read_forced env_all_ok calib_zero data_zero [])) = Some (- 5)"
  using C5_zero_divisor_is_error [where env = env_all_ok and calib = calib_zero and data = data_zero and bus = "[]"]
  by (simp add: pressure_var1_def calib_zero_def EIO_def)

text \<open>The clamp of lines 200--201 followed by the shift of line 202.\<close>

lemma humidity_clamp_range:
  fixes x :: "32 word"
  defines "y \<equiv> (if x <s 0 then 0 else x)"
  defines "z \<equiv> (if 419430400 <s y then 419430400 else y)"
  shows "0 \<le> sint (signed_drop_bit 12 z) \<and> sint (signed_drop_bit 12 z) \<le> 102400"
proof -
  have y0: "0 \<le> sint y"
    by (simp add: y_def word_sless_alt)
  have z0: "0 \<le> sint z" and z1: "sint z \<le> 419430400"
    using y0 by (simp_all add: z_def word_sless_alt)
  have s: "sint (signed_drop_bit 12 z) = sint z div 4096"
    by (simp add: sint_signed_drop_bit_eq drop_bit_eq_div)
  have "sint z div 4096 \<le> 419430400 div 4096"
    using z1 by (rule zdiv_mono1) simp
  moreover have "0 \<le> sint z div 4096"
    using z0 by (simp add: pos_imp_zdiv_nonneg_iff)
  ultimately show ?thesis
    unfolding s by simp
qed

lemma compensate_humidity_range:
  "0 \<le> sint (compensate_humidity calib t_fine adc_H) \<and>
   sint (compensate_humidity calib t_fine adc_H) \<le> 102400"
  unfolding compensate_humidity_def Let_def
  by (rule humidity_clamp_range)

text \<open>
  C10. Whenever \<^verbatim>\<open>bme280_read_forced\<close> returns 0, for every calibration and every
  bytes read, the integer \<^verbatim>\<open>h\<close> it stores for the humidity lies between 0 and
  102400, and the humidity value \<open>h / 1024\<close> lies between 0 and 100.
\<close>

theorem C10_humidity_range:
  assumes "fst (bme280_read_forced env calib data bus) = Some (0, d)"
  shows "0 \<le> sint (humidity d) \<and> sint (humidity d) \<le> 102400 \<and>
         0 \<le> humidity_value d \<and> humidity_value d \<le> 100"
proof -
  from assms bme280_read_forced_cases [of env calib data bus]
  have "\<exists>raw. bme280_compensate calib raw data = Some (0, d)"
    by (auto simp add: EIO_def)
  then obtain raw where "bme280_compensate calib raw data = Some (0, d)" ..
  then have h: "humidity d =
      compensate_humidity calib (compensate_t_fine calib (raw_adc_T raw)) (raw_adc_H raw)"
    by (rule bme280_compensate_humidity)
  have r: "0 \<le> sint (humidity d) \<and> sint (humidity d) \<le> 102400"
    unfolding h by (rule compensate_humidity_range)
  from r have "real_of_int 0 \<le> real_of_int (sint (humidity d))"
    and "real_of_int (sint (humidity d)) \<le> real_of_int 102400"
    by (simp_all only: of_int_le_iff)
  then have "0 \<le> humidity_value d \<and> humidity_value d \<le> 100"
    by (simp add: humidity_value_def)
  with r show ?thesis
    by simp
qed

text \<open>
  A run on the example calibration: the sensor delivers the pressure code 415148, the
  temperature code 519888 and the humidity code 30000, and the function returns 0.
\<close>

lemma sample_run:
  "fst (bme280_read_forced env_sample calib_example data_zero []) =
     Some (0, \<lparr> temperature = 2508, pressure = 100656, humidity = 457 \<rparr>)"
  by (simp add: bme280_read_forced_def bme280_bus_defs bme280_consts Let_def
      bme280_compensate_def raw_adc_P_def raw_adc_T_def raw_adc_H_def compensate_t_fine_def
      temperature_of_t_fine_def pressure_var1_def pressure_var2_def pressure_of_def udiv32_def
      compensate_humidity_def env_sample_def calib_example_def data_zero_def EIO_def
      word_sless_alt)

theorem C10_humidity_range_witness:
  "fst (bme280_read_forced env_sample calib_example data_zero []) =
     Some (0, \<lparr> temperature = 2508, pressure = 100656, humidity = 457 \<rparr>) \<and>
   0 \<le> humidity_value \<lparr> temperature = 2508, pressure = 100656, humidity = 457 \<rparr> \<and>
   humidity_value \<lparr> temperature = 2508, pressure = 100656, humidity = 457 \<rparr> \<le> 100"
  using sample_run C10_humidity_range [OF sample_run]
  by simp

end
